theory Spec2Isabelle
  imports Complex_Main "HOL-Library.Sublist"
begin

section \<open>Python values, strings and errors\<close>

text \<open>
  Python \<open>str\<close> values are modelled as \<open>string\<close>, holding the UTF-8 bytes of the text.
  Substring questions have the same answer on bytes as on code points, and \<open>str.strip\<close>
  removes the bytes of white-space characters. \<open>str.lower\<close> is modelled on the ASCII
  letters; the program only compares its result with "true", and no character outside
  ASCII has one of the letters of that word as its lower-case form.
\<close>

text \<open>
  A value decoded from JSON, or found in an attribute of a response object. A JSON
  object is an association list (its keys are distinct in Python). A number with a
  fractional part or an exponent is a float, given by its value; the decoder also
  accepts the literals \<open>Infinity\<close>, \<open>-Infinity\<close> and \<open>NaN\<close>.
\<close>

datatype py_float = Finite rat | PosInfinity | NegInfinity | NaN

datatype py_value =
    PyNone
  | PyBool bool
  | PyInt int
  | PyFloat py_float
  | PyStr string
  | PyList "py_value list"
  | PyDict "(string \<times> py_value) list"

text \<open>
  The exceptions a run can end with. \<open>RuntimeErrorWith text v\<close> is the \<open>RuntimeError\<close>
  whose message is the text followed by \<open>str(v)\<close>, the rendering of the value \<open>v\<close> that
  an f-string applies to it; the error holds the value, and the model leaves its
  rendering to Python.
\<close>

datatype error =
    RuntimeError string
  | RuntimeErrorWith string py_value
  | KeyError string
  | TypeError
  | AttributeError
  | ValueError
  | HTTPError nat
  | JSONDecodeError
  | RequestException string
  | APIError string

text \<open>Python's truth value of an object, as \<open>not x\<close> and \<open>if x\<close> use it.\<close>

fun truthy :: "py_value \<Rightarrow> bool" where
  "truthy PyNone = False"
| "truthy (PyBool b) = b"
| "truthy (PyInt i) = (i \<noteq> 0)"
| "truthy (PyFloat f) = (f \<noteq> Finite 0)"
| "truthy (PyStr s) = (s \<noteq> [])"
| "truthy (PyList xs) = (xs \<noteq> [])"
| "truthy (PyDict kvs) = (kvs \<noteq> [])"

text \<open>\<open>isinstance(x, str)\<close>.\<close>

fun is_str :: "py_value \<Rightarrow> bool" where
  "is_str (PyStr s) = True"
| "is_str _ = False"

text \<open>\<open>d.get(k)\<close> on a dict: the value, or \<open>None\<close> when the key is absent.\<close>

definition dict_get :: "(string \<times> py_value) list \<Rightarrow> string \<Rightarrow> py_value" where
  "dict_get kvs k = (case map_of kvs k of None \<Rightarrow> PyNone | Some v \<Rightarrow> v)"

text \<open>\<open>k in d\<close> on a dict.\<close>

definition dict_has :: "(string \<times> py_value) list \<Rightarrow> string \<Rightarrow> bool" where
  "dict_has kvs k = (map_of kvs k \<noteq> None)"

subsection \<open>String primitives\<close>

definition ascii_lower :: "char \<Rightarrow> char" where
  "ascii_lower c =
     (case map_of (zip ''ABCDEFGHIJKLMNOPQRSTUVWXYZ'' ''abcdefghijklmnopqrstuvwxyz'') c of
        None \<Rightarrow> c
      | Some l \<Rightarrow> l)"

text \<open>\<open>s.lower()\<close>.\<close>

definition lower :: "string \<Rightarrow> string" where
  "lower s = map ascii_lower s"

text \<open>
  The white-space characters of Python's \<open>str.isspace\<close>, each by its UTF-8 bytes:
  U+0009 to U+000D, U+001C to U+0020, U+0085, U+00A0, U+1680, U+2000 to U+200A, U+2028,
  U+2029, U+202F, U+205F and U+3000.
\<close>

definition whitespace :: "string list" where
  "whitespace =
     [[CHR 0x09], [CHR 0x0A], [CHR 0x0B], [CHR 0x0C], [CHR 0x0D],
      [CHR 0x1C], [CHR 0x1D], [CHR 0x1E], [CHR 0x1F], [CHR 0x20],
      [CHR 0xC2, CHR 0x85], [CHR 0xC2, CHR 0xA0],
      [CHR 0xE1, CHR 0x9A, CHR 0x80],
      [CHR 0xE2, CHR 0x80, CHR 0x80], [CHR 0xE2, CHR 0x80, CHR 0x81],
      [CHR 0xE2, CHR 0x80, CHR 0x82], [CHR 0xE2, CHR 0x80, CHR 0x83],
      [CHR 0xE2, CHR 0x80, CHR 0x84], [CHR 0xE2, CHR 0x80, CHR 0x85],
      [CHR 0xE2, CHR 0x80, CHR 0x86], [CHR 0xE2, CHR 0x80, CHR 0x87],
      [CHR 0xE2, CHR 0x80, CHR 0x88], [CHR 0xE2, CHR 0x80, CHR 0x89],
      [CHR 0xE2, CHR 0x80, CHR 0x8A],
      [CHR 0xE2, CHR 0x80, CHR 0xA8], [CHR 0xE2, CHR 0x80, CHR 0xA9],
      [CHR 0xE2, CHR 0x80, CHR 0xAF], [CHR 0xE2, CHR 0x81, CHR 0x9F],
      [CHR 0xE3, CHR 0x80, CHR 0x80]]"

text \<open>
  Removing from the start of a string every leading occurrence of one of the given
  characters, each character being the list of its bytes.
\<close>

function lstrip :: "string list \<Rightarrow> string \<Rightarrow> string" where
  "lstrip ws s =
     (case find (\<lambda>t. t \<noteq> [] \<and> prefix t s) ws of
        None \<Rightarrow> s
      | Some t \<Rightarrow> lstrip ws (drop (length t) s))"
  by pat_completeness auto
termination
proof (relation "measure (\<lambda>(ws, s). length s)")
  show "wf (measure (\<lambda>(ws, s). length s))" by simp
next
  fix ws :: "string list" and s t :: string
  assume "find (\<lambda>t. t \<noteq> [] \<and> prefix t s) ws = Some t"
  then have "t \<noteq> []" and "prefix t s" by (auto simp: find_Some_iff)
  then have "s \<noteq> []" by auto
  then show "((ws, drop (length t) s), (ws, s)) \<in> measure (\<lambda>(ws, s). length s)"
    using \<open>t \<noteq> []\<close> by simp
qed

declare lstrip.simps [simp del]

text \<open>
  \<open>s.strip()\<close>: the white-space characters removed at the start, then at the end (on
  the reversed string, with the bytes of each character reversed).
\<close>

definition strip :: "string \<Rightarrow> string" where
  "strip s = rev (lstrip (map rev whitespace) (rev (lstrip whitespace s)))"

text \<open>
  \<open>s.split(sep, 1)\<close> for a one-character separator: the whole string when the
  separator does not occur, else the text before its first occurrence and the text
  after it.
\<close>

fun split_maxsplit1 :: "char \<Rightarrow> string \<Rightarrow> string list" where
  "split_maxsplit1 sep [] = [[]]"
| "split_maxsplit1 sep (c # cs) =
     (if c = sep then [[], cs]
      else (case split_maxsplit1 sep cs of
              [] \<Rightarrow> [[c]]
            | h # t \<Rightarrow> (c # h) # t))"

text \<open>
  The number of positions of a string at which an occurrence of a pattern starts, and
  whether there is one (\<open>pat in s\<close>). They state the properties of rendered text.
\<close>

fun count_sub :: "string \<Rightarrow> string \<Rightarrow> nat" where
  "count_sub pat [] = (if pat = [] then 1 else 0)"
| "count_sub pat (c # cs) = (if prefix pat (c # cs) then 1 else 0) + count_sub pat cs"

definition is_substring :: "string \<Rightarrow> string \<Rightarrow> bool" where
  "is_substring pat s = (0 < count_sub pat s)"

section \<open>Environment loader (scripts/generate\_tip.py, lines 14 to 46)\<close>

type_synonym environ = "string \<rightharpoonup> string"

definition require_env :: "environ \<Rightarrow> string \<Rightarrow> error + string" where
  "require_env env var_name =
     (case env var_name of
        None \<Rightarrow> Inl (RuntimeError (''Missing required environment variable: '' @ var_name))
      | Some v \<Rightarrow>
          if v = [] then
            Inl (RuntimeError (''Missing required environment variable: '' @ var_name))
          else Inr v)"

text \<open>
  Lines 33 to 43: the owner and the name of the repository, from the value
  \<open>_repo_owner_env\<close> of \<open>REPO_OWNER\<close> (which may be absent) and the value
  \<open>_repo_name_raw\<close> of \<open>REPO_NAME\<close>. Unpacking the result of \<open>split\<close> into two names
  raises \<open>ValueError\<close> unless it has two elements.
\<close>

definition repo_identity :: "string option \<Rightarrow> string \<Rightarrow> error + (string \<times> string)" where
  "repo_identity repo_owner_env repo_name_raw =
     (if CHR ''/'' \<in> set repo_name_raw then
        (case split_maxsplit1 (CHR ''/'') repo_name_raw of
           [owner_from_slug, repo_from_slug] \<Rightarrow> Inr (owner_from_slug, repo_from_slug)
         | _ \<Rightarrow> Inl ValueError)
      else
        (case repo_owner_env of
           None \<Rightarrow>
             Inl (RuntimeError
               ''REPO_OWNER environment variable is required when REPO_NAME does not include the owner'')
         | Some owner \<Rightarrow>
             if owner = [] then
               Inl (RuntimeError
                 ''REPO_OWNER environment variable is required when REPO_NAME does not include the owner'')
             else Inr (owner, repo_name_raw)))"

text \<open>Lines 30 to 43: the two reads of the environment, then the rule above.\<close>

definition load_repo_identity :: "environ \<Rightarrow> error + (string \<times> string)" where
  "load_repo_identity env =
     (let repo_owner_env = env ''REPO_OWNER'' in
      case require_env env ''REPO_NAME'' of
        Inl e \<Rightarrow> Inl e
      | Inr repo_name_raw \<Rightarrow> repo_identity repo_owner_env repo_name_raw)"

record config =
  MODEL_NAME :: string
  GITHUB_TOKEN :: string
  GROQ_API_KEY :: string
  REPO_OWNER :: string
  REPO_NAME :: string
  DISCUSSION_CATEGORY_ID :: string
  DRY_RUN :: bool

text \<open>\<open>os.environ.get(key, default)\<close>.\<close>

definition environ_get :: "environ \<Rightarrow> string \<Rightarrow> string \<Rightarrow> string" where
  "environ_get env k dflt = (case env k of None \<Rightarrow> dflt | Some v \<Rightarrow> v)"

text \<open>The module-level statements, in their order; the first failure ends the load.\<close>

definition load_config :: "environ \<Rightarrow> error + config" where
  "load_config env =
     (let model_name = environ_get env ''GROQ_MODEL'' ''llama3-70b-8192'' in
      case require_env env ''GITHUB_TOKEN'' of
        Inl e \<Rightarrow> Inl e
      | Inr github_token \<Rightarrow>
     (case require_env env ''GROQ_API_KEY'' of
        Inl e \<Rightarrow> Inl e
      | Inr groq_api_key \<Rightarrow>
     (case load_repo_identity env of
        Inl e \<Rightarrow> Inl e
      | Inr (repo_owner, repo_name) \<Rightarrow>
     (case require_env env ''DISCUSSION_CATEGORY_ID'' of
        Inl e \<Rightarrow> Inl e
      | Inr discussion_category_id \<Rightarrow>
          Inr \<lparr> MODEL_NAME = model_name,
                GITHUB_TOKEN = github_token,
                GROQ_API_KEY = groq_api_key,
                REPO_OWNER = repo_owner,
                REPO_NAME = repo_name,
                DISCUSSION_CATEGORY_ID = discussion_category_id,
                DRY_RUN = (lower (environ_get env ''DRY_RUN'' ''false'') = ''true'') \<rparr>))))"

section \<open>Schedule resolver\<close>

text \<open>The tables of scripts/generate\_tip.py (lines 49 to 68).\<close>

definition LANGUAGE_SCHEDULE :: "int \<rightharpoonup> string" where
  "LANGUAGE_SCHEDULE = map_of
     [(0, ''Wildcard''),
      (1, ''Python''),
      (2, ''Java''),
      (3, ''JavaScript''),
      (4, ''Go''),
      (5, ''Wildcard''),
      (6, ''Wildcard'')]"

definition DAY_NAMES :: "int \<rightharpoonup> string" where
  "DAY_NAMES = map_of
     [(0, ''Sunday''),
      (1, ''Monday''),
      (2, ''Tuesday''),
      (3, ''Wednesday''),
      (4, ''Thursday''),
      (5, ''Friday''),
      (6, ''Saturday'')]"

text \<open>The tables of workflows/generate\_tip.py (lines 16 to 29).\<close>

definition LANGUAGE_SCHEDULE_workflows :: "int \<rightharpoonup> string" where
  "LANGUAGE_SCHEDULE_workflows = map_of
     [(0, ''Wildcard''),
      (1, ''Python''),
      (2, ''Java''),
      (3, ''Go''),
      (4, ''JavaScript''),
      (5, ''Wildcard''),
      (6, ''Wildcard'')]"

definition DAY_NAMES_workflows :: "int \<rightharpoonup> string" where
  "DAY_NAMES_workflows = map_of
     [(0, ''Sunday''), (1, ''Monday''), (2, ''Tuesday''), (3, ''Wednesday''),
      (4, ''Thursday''), (5, ''Friday''), (6, ''Saturday'')]"

text \<open>
  The current instant \<open>datetime.now(timezone.utc)\<close>, by the two observations the
  resolver makes of it: \<open>now.weekday()\<close>, which the library numbers Monday = 0 to
  Sunday = 6, and \<open>now.strftime("%Y-%m-%d")\<close>.
\<close>

record datetime =
  weekday :: int
  strftime_Ymd :: string

text \<open>The dictionary the resolver returns has exactly these three keys.\<close>

record day_info =
  day_name :: string
  language :: string
  date :: string

text \<open>Line 75 (line 34 of the workflows file): the index in the Sunday = 0 format.\<close>

definition weekday_index :: "datetime \<Rightarrow> int" where
  "weekday_index now = (if weekday now \<noteq> 6 then weekday now + 1 else 0)"

text \<open>A subscript \<open>d[k]\<close> of a table raises \<open>KeyError\<close> on a key it does not hold.\<close>

definition get_current_day_info :: "datetime \<Rightarrow> error + day_info" where
  "get_current_day_info now =
     (let weekday = weekday_index now in
      case DAY_NAMES weekday of
        None \<Rightarrow> Inl (KeyError ''DAY_NAMES'')
      | Some dn \<Rightarrow>
     (case LANGUAGE_SCHEDULE weekday of
        None \<Rightarrow> Inl (KeyError ''LANGUAGE_SCHEDULE'')
      | Some lang \<Rightarrow>
          Inr \<lparr> day_name = dn, language = lang, date = strftime_Ymd now \<rparr>))"

definition get_current_day_info_workflows :: "datetime \<Rightarrow> error + day_info" where
  "get_current_day_info_workflows now =
     (let weekday = weekday_index now in
      case DAY_NAMES_workflows weekday of
        None \<Rightarrow> Inl (KeyError ''DAY_NAMES'')
      | Some dn \<Rightarrow>
     (case LANGUAGE_SCHEDULE_workflows weekday of
        None \<Rightarrow> Inl (KeyError ''LANGUAGE_SCHEDULE'')
      | Some lang \<Rightarrow>
          Inr \<lparr> day_name = dn, language = lang, date = strftime_Ymd now \<rparr>))"

section \<open>Prompt builder (scripts/generate\_tip.py, lines 83 to 126)\<close>

text \<open>The UTF-8 bytes of the characters of the source text that are outside ASCII.\<close>

definition em_dash :: string where
  "em_dash = [CHR 0xE2, CHR 0x80, CHR 0x94]"

definition rightwards_arrow :: string where
  "rightwards_arrow = [CHR 0xE2, CHR 0x86, CHR 0x92]"

definition double_quote :: string where
  "double_quote = [CHR 0x22]"

definition SYSTEM_PROMPT :: string where
  "SYSTEM_PROMPT =
     ''You are an expert AI instructor who writes daily programming insight posts for '' @
     ''beginners. Always reply with valid Markdown that is professional, concise, and '' @
     ''aligned with the provided outline. Never include extra sections or commentary.''"

text \<open>
  Lines 95 to 126. The f-string is the concatenation of its literal parts and the
  values it interpolates; the literal parts are named here, in their order.
\<close>

definition prompt_before_date :: string where
  "prompt_before_date =
      ''Create today's GitHub Discussion post for the Daily Programming Insight series.\<newline>'' @
      ''\<newline>'' @
      ''Date: ''"

definition prompt_before_day :: string where
  "prompt_before_day =
      ''\<newline>'' @
      ''Day: ''"

definition prompt_before_language :: string where
  "prompt_before_language =
      ''\<newline>'' @
      ''Scheduled Language: ''"

definition prompt_rules :: string where
  "prompt_rules =
      ''\<newline>'' @
      ''\<newline>'' @
      ''Follow these exact rules:\<newline>'' @
      ''\<newline>'' @
      ''Language schedule\<newline>'' @
      ''- Monday '' @ rightwards_arrow @ '' Python\<newline>'' @
      ''- Tuesday '' @ rightwards_arrow @ '' Java\<newline>'' @
      ''- Wednesday '' @ rightwards_arrow @ '' JavaScript\<newline>'' @
      ''- Thursday '' @ rightwards_arrow @ '' Go\<newline>'' @
      ''- Friday, Saturday, Sunday '' @ rightwards_arrow @ '' Wildcard (you may pick any language, including niche or emerging ones)\<newline>'' @
      ''\<newline>'' @
      ''Post structure and formatting\<newline>'' @
      ''1. Introduction '' @ em_dash @ '' 1-2 sentences introducing yourself as the AI assistant.\<newline>'' @
      ''2. Topic Preview '' @ em_dash @ '' Clearly state the specific concept or technique covered today.\<newline>'' @
      ''3. Fun Fact '' @ em_dash @ '' 2-4 sentences about the scheduled language including year or origin context.\<newline>'' @
      ''4. Tips/Notes '' @ em_dash @ '' Provide exactly 1-2 practical syntax tips, functions, or features for the language.\<newline>'' @
      ''5. Code Snippet '' @ em_dash @ '' Provide a runnable example in the scheduled language that demonstrates the concept. Use a fenced code block tagged with the lowercase language name. The snippet must be 30-50 lines, beginner-friendly yet intermediate in difficulty, and follow PEP 8 if the language is Python. Include helpful inline comments.\<newline>'' @
      ''6. Explanation '' @ em_dash @ '' Offer a step-by-step breakdown of how the code works, why the concept matters, and practical use cases. Use numbered steps.\<newline>'' @
      ''7. Sources '' @ em_dash @ '' If you referenced any external material, cite the links in Markdown list format. If not, output '' @ double_quote @ ''Sources: None'' @ double_quote @ ''.\<newline>'' @
      ''\<newline>'' @
      ''Additional requirements\<newline>'' @
      ''- Maintain professional, concise, beginner-friendly tone.\<newline>'' @
      ''- Never add sections beyond the list above.\<newline>'' @
      ''- Always produce valid Markdown.\<newline>'' @
      ''- For wildcard days, still follow the structure and pick a language that differs from the workweek schedule.\<newline>'' @
      ''- Topic Preview, Fun Fact, and Tips must relate to the scheduled language (''"

definition prompt_closing :: string where
  "prompt_closing =
      '').\<newline>'' @
      ''\<newline>'' @
      ''Return only the finished Markdown post with the seven sections in the order listed.''"

definition build_user_prompt :: "day_info \<Rightarrow> string" where
  "build_user_prompt di =
     (let language = language di; day_name = day_name di in
      prompt_before_date @ date di @
      prompt_before_day @ day_name @
      prompt_before_language @ language @
      prompt_rules @ language @
      prompt_closing)"

section \<open>The outside world\<close>

text \<open>
  The keyword arguments of \<open>client.chat.completions.create\<close>, with the key the client
  was built with, and the parts of its response that the script reads: the list
  \<open>response.choices\<close>, each choice's \<open>message\<close>, and the message's \<open>content\<close>
  attribute (\<open>None\<close> here when the object has no such attribute).
\<close>

record groq_request =
  api_key :: string
  model :: string
  temperature :: rat
  max_tokens :: nat
  messages :: "(string \<times> string) list"

datatype message = Message (content: "py_value option")

datatype choice = Choice (message: message)

datatype completion = Completion (choices: "choice list")

text \<open>
  A call of \<open>requests.post\<close> and the parts of its response that the script reads: the
  status (for \<open>raise_for_status\<close>) and the body as \<open>response.json()\<close> decodes it
  (\<open>None\<close> here when the body is not JSON).
\<close>

record http_request =
  url :: string
  headers :: "(string \<times> string) list"
  json :: py_value
  timeout :: nat

record http_response =
  status_code :: nat
  body_json :: "py_value option"

text \<open>
  One run sees the clock, the completion service and the HTTP endpoint; a call that
  raises returns the exception.
\<close>

record world =
  utc_now :: datetime
  groq_create :: "groq_request \<Rightarrow> error + completion"
  requests_post :: "http_request \<Rightarrow> error + http_response"

text \<open>What a run does that can be observed, in order.\<close>

datatype event =
    Print string
  | GroqCreate groq_request
  | HttpPost http_request

fun printed :: "event list \<Rightarrow> string list" where
  "printed [] = []"
| "printed (Print s # es) = s # printed es"
| "printed (e # es) = printed es"

fun http_posts :: "event list \<Rightarrow> http_request list" where
  "http_posts [] = []"
| "http_posts (HttpPost r # es) = r # http_posts es"
| "http_posts (e # es) = http_posts es"

section \<open>Completion client (scripts/generate\_tip.py, lines 129 to 153)\<close>

text \<open>Lines 132 to 141: the request that is sent.\<close>

definition completion_request :: "config \<Rightarrow> day_info \<Rightarrow> groq_request" where
  "completion_request cfg di =
     \<lparr> api_key = GROQ_API_KEY cfg,
       model = MODEL_NAME cfg,
       temperature = 4 / 10,
       max_tokens = 2048,
       messages = [(''system'', SYSTEM_PROMPT), (''user'', build_user_prompt di)] \<rparr>"

text \<open>
  The result is the events of the call and what it returns or raises. \<open>getattr\<close> with
  the default \<open>None\<close> reads the content; calling \<open>strip\<close> on a value that is not a
  string would raise \<open>AttributeError\<close>.
\<close>

definition generate_programming_tip :: "config \<Rightarrow> world \<Rightarrow> day_info \<Rightarrow> event list \<times> (error + string)" where
  "generate_programming_tip cfg w di =
     (let request = completion_request cfg di in
      ([GroqCreate request],
       case groq_create w request of
         Inl e \<Rightarrow> Inl e
       | Inr response \<Rightarrow>
           if choices response = [] then
             Inl (RuntimeError ''Groq completion response did not contain choices'')
           else
             (let content = (case content (message (hd (choices response))) of
                               None \<Rightarrow> PyNone
                             | Some v \<Rightarrow> v)
              in if \<not> truthy content \<or> \<not> is_str content then
                   Inl (RuntimeError ''Received empty or non-string content from Groq completion'')
                 else
                   (case content of
                      PyStr text \<Rightarrow>
                        (let stripped = strip text in
                         if stripped = [] then
                           Inl (RuntimeError
                             ''Groq completion content was blank after stripping whitespace'')
                         else Inr stripped)
                    | _ \<Rightarrow> Inl AttributeError))))"

section \<open>Publisher (scripts/generate\_tip.py, lines 156 to 233)\<close>

definition GITHUB_GRAPHQL_ENDPOINT :: string where
  "GITHUB_GRAPHQL_ENDPOINT = ''https://api.github.com/graphql''"

text \<open>
  Lines 163 to 168: the request that is posted. \<open>raise_for_status\<close> raises on a
  status from 400 to 599. A payload that is not a dict
  raises \<open>TypeError\<close>, in the membership test or in the subscript with a string; a
  dict without the key \<open>data\<close> raises \<open>KeyError\<close>.
\<close>

definition graphql_request :: "(string \<times> string) list \<Rightarrow> string \<Rightarrow> py_value \<Rightarrow> http_request" where
  "graphql_request hdrs query variables =
     \<lparr> url = GITHUB_GRAPHQL_ENDPOINT,
       headers = hdrs,
       json = PyDict [(''query'', PyStr query), (''variables'', variables)],
       timeout = 30 \<rparr>"

definition github_graphql ::
    "world \<Rightarrow> (string \<times> string) list \<Rightarrow> string \<Rightarrow> py_value \<Rightarrow> event list \<times> (error + py_value)" where
  "github_graphql w hdrs query variables =
     (let request = graphql_request hdrs query variables
      in ([HttpPost request],
          case requests_post w request of
            Inl e \<Rightarrow> Inl e
          | Inr response \<Rightarrow>
              if 400 \<le> status_code response \<and> status_code response < 600 then
                Inl (HTTPError (status_code response))
              else
                (case body_json response of
                   None \<Rightarrow> Inl JSONDecodeError
                 | Some payload \<Rightarrow>
                     (case payload of
                        PyDict kvs \<Rightarrow>
                          if dict_has kvs ''errors'' then
                            Inl (RuntimeErrorWith ''GitHub GraphQL error: ''
                                   (dict_get kvs ''errors''))
                          else
                            (case map_of kvs ''data'' of
                               None \<Rightarrow> Inl (KeyError ''data'')
                             | Some data \<Rightarrow> Inr data)
                      | _ \<Rightarrow> Inl TypeError))))"

definition repository_query :: string where
  "repository_query =
      ''\<newline>'' @
      ''        query($owner: String!, $name: String!) {\<newline>'' @
      ''          repository(owner: $owner, name: $name) {\<newline>'' @
      ''            id\<newline>'' @
      ''          }\<newline>'' @
      ''        }\<newline>'' @
      ''        ''"

text \<open>\<open>data.get\<close> on a value that is not a dict raises \<open>AttributeError\<close>.\<close>

definition fetch_repository_id ::
    "config \<Rightarrow> world \<Rightarrow> (string \<times> string) list \<Rightarrow> event list \<times> (error + string)" where
  "fetch_repository_id cfg w hdrs =
     (case github_graphql w hdrs repository_query
             (PyDict [(''owner'', PyStr (REPO_OWNER cfg)), (''name'', PyStr (REPO_NAME cfg))]) of
        (evs, Inl e) \<Rightarrow> (evs, Inl e)
      | (evs, Inr data) \<Rightarrow>
          (evs,
           case data of
             PyDict kvs \<Rightarrow>
               (case dict_get kvs ''repository'' of
                  PyDict repo \<Rightarrow>
                    if \<not> dict_has repo ''id'' then
                      Inl (RuntimeError ''Unable to resolve repository ID from GitHub API response'')
                    else
                      (case dict_get repo ''id'' of
                         PyStr repo_id \<Rightarrow>
                           if repo_id = [] then
                             Inl (RuntimeError ''GitHub repository ID was missing or invalid'')
                           else Inr repo_id
                       | _ \<Rightarrow> Inl (RuntimeError ''GitHub repository ID was missing or invalid''))
                | _ \<Rightarrow> Inl (RuntimeError ''Unable to resolve repository ID from GitHub API response''))
           | _ \<Rightarrow> Inl AttributeError))"

definition create_discussion_mutation :: string where
  "create_discussion_mutation =
      ''\<newline>'' @
      ''        mutation($input: CreateDiscussionInput!) {\<newline>'' @
      ''          createDiscussion(input: $input) {\<newline>'' @
      ''            discussion {\<newline>'' @
      ''              url\<newline>'' @
      ''            }\<newline>'' @
      ''          }\<newline>'' @
      ''        }\<newline>'' @
      ''        ''"

definition create_discussion ::
    "config \<Rightarrow> world \<Rightarrow> (string \<times> string) list \<Rightarrow> string \<Rightarrow> string \<Rightarrow> string
       \<Rightarrow> event list \<times> (error + string)" where
  "create_discussion cfg w hdrs repo_id title body =
     (case github_graphql w hdrs create_discussion_mutation
             (PyDict [(''input'',
                PyDict [(''repositoryId'', PyStr repo_id),
                        (''categoryId'', PyStr (DISCUSSION_CATEGORY_ID cfg)),
                        (''title'', PyStr title),
                        (''body'', PyStr body)])]) of
        (evs, Inl e) \<Rightarrow> (evs, Inl e)
      | (evs, Inr data) \<Rightarrow>
          (evs,
           case data of
             PyDict kvs \<Rightarrow>
               (let created = dict_get kvs ''createDiscussion'';
                    discussion = (case created of
                                    PyDict c \<Rightarrow> dict_get c ''discussion''
                                  | _ \<Rightarrow> PyNone)
                in case discussion of
                     PyDict d \<Rightarrow>
                       if \<not> dict_has d ''url'' then
                         Inl (RuntimeError ''GitHub did not return a discussion URL'')
                       else
                         (case dict_get d ''url'' of
                            PyStr u \<Rightarrow>
                              if u = [] then
                                Inl (RuntimeError ''GitHub discussion URL was missing or invalid'')
                              else Inr u
                          | _ \<Rightarrow> Inl (RuntimeError ''GitHub discussion URL was missing or invalid''))
                   | _ \<Rightarrow> Inl (RuntimeError ''GitHub did not return a discussion URL''))
           | _ \<Rightarrow> Inl AttributeError))"

section \<open>Orchestrator (scripts/generate\_tip.py, lines 236 to 261)\<close>

definition main :: "config \<Rightarrow> world \<Rightarrow> event list \<times> (error + unit)" where
  "main cfg w =
     (case get_current_day_info (utc_now w) of
        Inl e \<Rightarrow> ([], Inl e)
      | Inr di \<Rightarrow>
     (let evs1 = [Print (''Generating Daily Programming Insight for '' @ day_name di @
                          '' ('' @ date di @ '')'')]
      in case generate_programming_tip cfg w di of
        (evs2, Inl e) \<Rightarrow> (evs1 @ evs2, Inl e)
      | (evs2, Inr post_body) \<Rightarrow>
     (let title = ''Daily Programming Insight '' @ em_dash @ '' '' @ date di @
                  '' ('' @ day_name di @ '')''
      in if DRY_RUN cfg then
           (evs1 @ evs2 @
              [Print ''DRY_RUN enabled - not posting to GitHub.'',
               Print ''--- Generated Post ---'',
               Print post_body],
            Inr ())
         else
     (let hdrs = [(''Authorization'', ''Bearer '' @ GITHUB_TOKEN cfg),
                  (''Accept'', ''application/vnd.github+json''),
                  (''Content-Type'', ''application/json'')]
      in case fetch_repository_id cfg w hdrs of
        (evs3, Inl e) \<Rightarrow> (evs1 @ evs2 @ evs3, Inl e)
      | (evs3, Inr repo_id) \<Rightarrow>
     (case create_discussion cfg w hdrs repo_id title post_body of
        (evs4, Inl e) \<Rightarrow> (evs1 @ evs2 @ evs3 @ evs4, Inl e)
      | (evs4, Inr discussion_url) \<Rightarrow>
          (evs1 @ evs2 @ evs3 @ evs4 @
             [Print (''Discussion created successfully: '' @ discussion_url)],
           Inr ()))))))"

text \<open>Running the script: the module-level load, then \<open>main\<close>.\<close>

definition run_script :: "environ \<Rightarrow> world \<Rightarrow> event list \<times> (error + unit)" where
  "run_script env w =
     (case load_config env of
        Inl e \<Rightarrow> ([], Inl e)
      | Inr cfg \<Rightarrow> main cfg w)"

section \<open>Vocabulary of the properties\<close>

text \<open>
  The names of the days in the numbering of the library's \<open>weekday()\<close>, Monday = 0 to
  Sunday = 6. The program has no such table; it says which day an instant falls on.
\<close>

definition python_day_names :: "int \<rightharpoonup> string" where
  "python_day_names = map_of
     [(0, ''Monday''), (1, ''Tuesday''), (2, ''Wednesday''), (3, ''Thursday''),
      (4, ''Friday''), (5, ''Saturday''), (6, ''Sunday'')]"

text \<open>
  The value found in a decoded JSON value by following keys through nested objects,
  the string found there when it is a string and not empty, and whether a failure is a
  \<open>RuntimeError\<close> whose message holds a given piece of text.
\<close>

fun json_path :: "string list \<Rightarrow> py_value \<Rightarrow> py_value option" where
  "json_path [] v = Some v"
| "json_path (k # ks) (PyDict kvs) =
     (case map_of kvs k of None \<Rightarrow> None | Some v \<Rightarrow> json_path ks v)"
| "json_path (k # ks) v = None"

definition nonempty_str_at :: "string list \<Rightarrow> py_value \<Rightarrow> string option" where
  "nonempty_str_at path v =
     (case json_path path v of
        Some (PyStr s) \<Rightarrow> if s = [] then None else Some s
      | _ \<Rightarrow> None)"

definition names_field :: "string \<Rightarrow> error + string \<Rightarrow> bool" where
  "names_field field r =
     (case r of Inl (RuntimeError msg) \<Rightarrow> is_substring field msg | _ \<Rightarrow> False)"

text \<open>
  Concrete inputs: a configuration, the day information of a Monday, the instant
  Monday 2024-01-01, and a world at that instant in which the completion service gives
  one fixed answer and the endpoint answers every request with status 200 and one
  fixed JSON body.
\<close>

definition example_config :: config where
  "example_config =
     \<lparr> MODEL_NAME = ''llama3-70b-8192'', GITHUB_TOKEN = ''ghp_1'', GROQ_API_KEY = ''gsk_1'',
       REPO_OWNER = ''acme'', REPO_NAME = ''widgets'', DISCUSSION_CATEGORY_ID = ''DIC_1'',
       DRY_RUN = False \<rparr>"

definition example_day_info :: day_info where
  "example_day_info = \<lparr> day_name = ''Monday'', language = ''Python'', date = ''2024-01-01'' \<rparr>"

definition example_now :: datetime where
  "example_now = \<lparr> weekday = 0, strftime_Ymd = ''2024-01-01'' \<rparr>"

definition example_world :: "error + completion \<Rightarrow> py_value \<Rightarrow> world" where
  "example_world completion payload =
     \<lparr> utc_now = example_now,
       groq_create = (\<lambda>request. completion),
       requests_post = (\<lambda>request. Inr \<lparr> status_code = 200, body_json = Some payload \<rparr>) \<rparr>"

text \<open>
  An environment whose dry-run flag is written in upper case, the configuration it
  loads, and a completion with one choice.
\<close>

definition dry_run_environ :: environ where
  "dry_run_environ =
     [''GITHUB_TOKEN'' \<mapsto> ''ghp_1'', ''GROQ_API_KEY'' \<mapsto> ''gsk_1'',
      ''REPO_NAME'' \<mapsto> ''acme/widgets'', ''DISCUSSION_CATEGORY_ID'' \<mapsto> ''DIC_1'',
      ''DRY_RUN'' \<mapsto> ''TRUE'']"

definition dry_run_config :: config where
  "dry_run_config =
     \<lparr> MODEL_NAME = ''llama3-70b-8192'', GITHUB_TOKEN = ''ghp_1'', GROQ_API_KEY = ''gsk_1'',
       REPO_OWNER = ''acme'', REPO_NAME = ''widgets'', DISCUSSION_CATEGORY_ID = ''DIC_1'',
       DRY_RUN = True \<rparr>"

definition tip_completion :: completion where
  "tip_completion = Completion [Choice (Message (Some (PyStr ''Tip body'')))]"

text \<open>
  The form of a date that \<open>strftime("%Y-%m-%d")\<close> gives for a year of four digits:
  four digits, a hyphen, two digits, a hyphen, two digits. \<open>digit_class\<close> replaces
  every digit by the digit 0 and keeps every other character.
\<close>

definition digit_class :: "char \<Rightarrow> char" where
  "digit_class c = (if c \<in> set ''0123456789'' then CHR ''0'' else c)"

definition iso_date :: "string \<Rightarrow> bool" where
  "iso_date s = (map digit_class s = ''0000-00-00'')"

text \<open>
  A search for patterns one after the other: \<open>strip_prefix\<close> removes a pattern from
  the start of a string, \<open>find_after\<close> gives the text after the first occurrence of a
  pattern, and \<open>in_order\<close> finds each pattern of a list after the occurrence of the
  one before it.
\<close>

fun strip_prefix :: "string \<Rightarrow> string \<Rightarrow> string option" where
  "strip_prefix [] s = Some s"
| "strip_prefix (p # ps) [] = None"
| "strip_prefix (p # ps) (c # cs) = (if p = c then strip_prefix ps cs else None)"

fun find_after :: "string \<Rightarrow> string \<Rightarrow> string option" where
  "find_after pat [] = strip_prefix pat []"
| "find_after pat (c # cs) =
     (case strip_prefix pat (c # cs) of
        Some r \<Rightarrow> Some r
      | None \<Rightarrow> find_after pat cs)"

fun in_order :: "string list \<Rightarrow> string \<Rightarrow> bool" where
  "in_order [] s = True"
| "in_order (p # ps) s =
     (case find_after p s of
        None \<Rightarrow> False
      | Some r \<Rightarrow> in_order ps r)"

text \<open>The count of occurrences with an accumulator, for evaluation.\<close>

fun count_from :: "string \<Rightarrow> string \<Rightarrow> nat \<Rightarrow> nat" where
  "count_from pat [] n = (if pat = [] then Suc n else n)"
| "count_from pat (c # cs) n = count_from pat cs (if prefix pat (c # cs) then Suc n else n)"

section \<open>Auxiliary facts\<close>

lemma int_0_6_cases:
  "0 \<le> (i::int) \<Longrightarrow> i \<le> 6 \<Longrightarrow> i = 0 \<or> i = 1 \<or> i = 2 \<or> i = 3 \<or> i = 4 \<or> i = 5 \<or> i = 6"
  by arith

lemma split_maxsplit1_first:
  "sep \<notin> set a \<Longrightarrow> split_maxsplit1 sep (a @ sep # b) = [a, b]"
  by (induction a) auto

lemma count_sub_prefix_pos: "prefix pat t \<Longrightarrow> 0 < count_sub pat t"
  by (cases t) auto

lemma count_sub_append_left: "count_sub pat s \<le> count_sub pat (p @ s)"
  by (induction p) auto

lemma is_substring_mid: "is_substring pat (p @ pat @ s)"
  unfolding is_substring_def
  using count_sub_prefix_pos [of pat "pat @ s"] count_sub_append_left [of pat "pat @ s" p]
  by simp

lemma repo_identity_slug:
  "CHR ''/'' \<notin> set owner \<Longrightarrow> repo_identity oe (owner @ ''/'' @ name) = Inr (owner, name)"
  by (simp add: repo_identity_def split_maxsplit1_first)

lemma load_repo_identity_error:
  assumes a: "load_repo_identity env = Inl e"
  shows "\<exists>msg. e = RuntimeError msg"
proof (cases "require_env env ''REPO_NAME''")
  case (Inl e')
  then show ?thesis using a
    by (auto simp: load_repo_identity_def require_env_def split: option.splits if_splits)
next
  case (Inr raw)
  show ?thesis
  proof (cases "CHR ''/'' \<in> set raw")
    case True
    then obtain x y where "raw = x @ ''/'' @ y" "CHR ''/'' \<notin> set x"
      by (metis split_list_first append_Cons append_Nil)
    then have "repo_identity (env ''REPO_OWNER'') raw = Inr (x, y)"
      using repo_identity_slug by simp
    then show ?thesis using a Inr by (simp add: load_repo_identity_def)
  next
    case False
    then show ?thesis using a Inr
      by (auto simp: load_repo_identity_def repo_identity_def split: option.splits if_splits)
  qed
qed

lemma lstrip_decomposition:
  "\<exists>ts. set ts \<subseteq> set ws \<and> s = concat ts @ lstrip ws s"
proof (induction ws s rule: lstrip.induct)
  case (1 ws s)
  show ?case
  proof (cases "find (\<lambda>t. t \<noteq> [] \<and> prefix t s) ws")
    case None
    then have "lstrip ws s = s" by (simp add: lstrip.simps)
    then have "set [] \<subseteq> set ws \<and> s = concat [] @ lstrip ws s" by simp
    then show ?thesis by blast
  next
    case (Some t)
    then have t: "t \<in> set ws" "prefix t s"
      by (auto simp: find_Some_iff)
    from 1 [OF Some] obtain ts where ts: "set ts \<subseteq> set ws"
      "drop (length t) s = concat ts @ lstrip ws (drop (length t) s)" by blast
    have "lstrip ws s = lstrip ws (drop (length t) s)" using Some by (simp add: lstrip.simps)
    moreover have "s = t @ drop (length t) s" using t(2) by (auto simp: prefix_def)
    ultimately have "s = concat (t # ts) @ lstrip ws s" using ts(2) by simp
    moreover have "set (t # ts) \<subseteq> set ws" using t(1) ts(1) by simp
    ultimately show ?thesis by blast
  qed
qed

lemma lstrip_no_prefix:
  "t \<in> set ws \<Longrightarrow> t \<noteq> [] \<Longrightarrow> \<not> prefix t (lstrip ws s)"
proof (induction ws s rule: lstrip.induct)
  case (1 ws s)
  show ?case
  proof (cases "find (\<lambda>t. t \<noteq> [] \<and> prefix t s) ws")
    case None
    then have "lstrip ws s = s" by (simp add: lstrip.simps)
    moreover have "\<not> prefix t s" using None "1.prems" by (auto simp: find_None_iff)
    ultimately show ?thesis by simp
  next
    case (Some u)
    then have "lstrip ws s = lstrip ws (drop (length u) s)" by (simp add: lstrip.simps)
    then show ?thesis using "1.IH" [OF Some "1.prems"] by simp
  qed
qed

lemma lstrip_tokens:
  assumes free: "\<And>t u x y. t \<in> set ws \<Longrightarrow> u \<in> set ws \<Longrightarrow> t @ x = u @ y \<Longrightarrow> t = u"
    and nonempty: "[] \<notin> set ws"
    and ts: "set ts \<subseteq> set ws"
  shows "lstrip ws (concat ts @ s) = lstrip ws s"
  using ts
proof (induction ts)
  case Nil
  then show ?case by simp
next
  case (Cons t ts)
  then have t: "t \<in> set ws" "t \<noteq> []" using nonempty by auto
  let ?s = "concat (t # ts) @ s"
  have p: "prefix t ?s" by simp
  then have "find (\<lambda>u. u \<noteq> [] \<and> prefix u ?s) ws \<noteq> None"
    using t by (auto simp: find_None_iff)
  then obtain u where u: "find (\<lambda>u. u \<noteq> [] \<and> prefix u ?s) ws = Some u" by blast
  then have "u \<in> set ws" "prefix u ?s" by (auto simp: find_Some_iff)
  then obtain y where "u @ y = t @ (concat ts @ s)" by (auto simp: prefix_def)
  then have "u = t" using free [OF \<open>u \<in> set ws\<close> t(1)] by blast
  then have "lstrip ws ?s = lstrip ws (drop (length t) ?s)"
    using u by (subst lstrip.simps) simp
  then show ?case using Cons by simp
qed

lemma whitespace_nonempty: "[] \<notin> set whitespace"
  by (simp add: whitespace_def)

lemma whitespace_prefix_free:
  assumes "t \<in> set whitespace" and "u \<in> set whitespace" and "t @ x = u @ y"
  shows "t = u"
proof -
  have "list_all (\<lambda>t. list_all (\<lambda>u. prefix t u \<longrightarrow> t = u) whitespace) whitespace"
    unfolding whitespace_def by simp
  then have pf: "prefix t u \<Longrightarrow> t = u" "prefix u t \<Longrightarrow> u = t"
    using assms(1,2) by (auto simp: list_all_iff)
  have "prefix t (u @ y)" using assms(3) by (metis prefixI)
  moreover have "prefix u (u @ y)" by simp
  ultimately have "prefix t u \<or> prefix u t" by (rule prefix_same_cases)
  then show ?thesis using pf by blast
qed

lemma lstrip_Nil: "lstrip ws [] = []"
proof -
  have "find (\<lambda>t. t \<noteq> [] \<and> prefix t []) ws = None"
    by (auto simp: find_None_iff)
  then show ?thesis by (subst lstrip.simps) simp
qed

lemma strip_decomposition:
  "\<exists>ls rs. set ls \<subseteq> set whitespace \<and> set rs \<subseteq> set whitespace
     \<and> s = concat ls @ strip s @ concat rs"
proof -
  let ?u = "lstrip whitespace s"
  let ?v = "lstrip (map rev whitespace) (rev ?u)"
  obtain ls where ls: "set ls \<subseteq> set whitespace" "s = concat ls @ ?u"
    using lstrip_decomposition [of whitespace s] by blast
  obtain ts where ts: "set ts \<subseteq> set (map rev whitespace)" "rev ?u = concat ts @ ?v"
    using lstrip_decomposition [of "map rev whitespace" "rev ?u"] by blast
  have "rev (rev ?u) = rev (concat ts @ ?v)" using ts(2) by simp
  then have u: "?u = strip s @ concat (map rev (rev ts))"
    by (simp add: strip_def rev_concat)
  have "set (map rev (rev ts)) \<subseteq> set whitespace"
  proof
    fix r assume "r \<in> set (map rev (rev ts))"
    then obtain t where "t \<in> set ts" "r = rev t" by auto
    then show "r \<in> set whitespace" using ts(1) by auto
  qed
  then show ?thesis using ls u by metis
qed

lemma strip_ends:
  assumes "t \<in> set whitespace"
  shows "\<not> prefix t (strip s) \<and> \<not> suffix t (strip s)"
proof -
  let ?u = "lstrip whitespace s"
  let ?v = "lstrip (map rev whitespace) (rev ?u)"
  have t: "t \<noteq> []" using assms whitespace_nonempty by auto
  have "\<not> prefix (rev t) ?v"
    using assms t by (intro lstrip_no_prefix) auto
  then have suf: "\<not> suffix t (strip s)"
    by (simp add: strip_def suffix_to_prefix)
  obtain ts where "rev ?u = concat ts @ ?v"
    using lstrip_decomposition [of "map rev whitespace" "rev ?u"] by blast
  then have "rev (rev ?u) = rev (concat ts @ ?v)" by simp
  then have "?u = strip s @ rev (concat ts)" by (simp add: strip_def)
  then have "prefix (strip s) ?u" by (metis prefixI)
  moreover have "\<not> prefix t ?u" using assms t by (rule lstrip_no_prefix)
  ultimately have "\<not> prefix t (strip s)" using prefix_order.trans by blast
  then show ?thesis using suf by simp
qed

lemma strip_empty_iff:
  "strip s = [] \<longleftrightarrow> (\<exists>ts. set ts \<subseteq> set whitespace \<and> s = concat ts)"
proof
  assume "strip s = []"
  then obtain ls rs where "set ls \<subseteq> set whitespace" "set rs \<subseteq> set whitespace"
    "s = concat ls @ concat rs"
    using strip_decomposition [of s] by auto
  then have "set (ls @ rs) \<subseteq> set whitespace \<and> s = concat (ls @ rs)" by simp
  then show "\<exists>ts. set ts \<subseteq> set whitespace \<and> s = concat ts" by blast
next
  assume "\<exists>ts. set ts \<subseteq> set whitespace \<and> s = concat ts"
  then obtain ts where ts: "set ts \<subseteq> set whitespace" "s = concat ts" by blast
  have "lstrip whitespace (concat ts @ []) = lstrip whitespace []"
    using whitespace_prefix_free whitespace_nonempty ts(1) by (rule lstrip_tokens)
  then have "lstrip whitespace s = []" using ts(2) by (simp add: lstrip_Nil)
  then show "strip s = []" by (simp add: strip_def lstrip_Nil)
qed

lemma strip_examples:
  "strip ''  Use list comprehensions.\<newline>'' = ''Use list comprehensions.''"
  "strip ''Tip body'' = ''Tip body''"
  by code_simp+

lemma tip_of_response:
  assumes "groq_create w (completion_request cfg di) = Inr response"
  shows "snd (generate_programming_tip cfg w di) =
     (case choices response of
        [] \<Rightarrow> Inl (RuntimeError ''Groq completion response did not contain choices'')
      | c # cs \<Rightarrow>
          (case content (message c) of
             Some (PyStr text) \<Rightarrow>
               if text = [] then
                 Inl (RuntimeError ''Received empty or non-string content from Groq completion'')
               else if strip text = [] then
                 Inl (RuntimeError ''Groq completion content was blank after stripping whitespace'')
               else Inr (strip text)
           | _ \<Rightarrow> Inl (RuntimeError ''Received empty or non-string content from Groq completion'')))"
  using assms
  by (simp add: generate_programming_tip_def Let_def split: list.splits option.splits py_value.splits)

lemma repository_messages:
  "is_substring ''repository ID'' ''Unable to resolve repository ID from GitHub API response''"
  "is_substring ''repository ID'' ''GitHub repository ID was missing or invalid''"
  using is_substring_mid [of "''repository ID''" "''Unable to resolve ''" "'' from GitHub API response''"]
    is_substring_mid [of "''repository ID''" "''GitHub ''" "'' was missing or invalid''"]
  by simp_all

lemma discussion_messages:
  "is_substring ''discussion URL'' ''GitHub did not return a discussion URL''"
  "is_substring ''discussion URL'' ''GitHub discussion URL was missing or invalid''"
  using is_substring_mid [of "''discussion URL''" "''GitHub did not return a ''" "[]"]
    is_substring_mid [of "''discussion URL''" "''GitHub ''" "'' was missing or invalid''"]
  by simp_all

lemma github_graphql_errors:
  assumes "requests_post w (graphql_request hdrs query variables) = Inr response"
    and "\<not> (400 \<le> status_code response \<and> status_code response < 600)"
    and "body_json response = Some (PyDict kvs)"
    and "map_of kvs ''errors'' = Some errs"
  shows "snd (github_graphql w hdrs query variables) =
           Inl (RuntimeErrorWith ''GitHub GraphQL error: '' errs)"
  using assms by (simp add: github_graphql_def dict_has_def dict_get_def)

lemma github_graphql_data:
  assumes "requests_post w (graphql_request hdrs query variables) = Inr response"
    and "\<not> (400 \<le> status_code response \<and> status_code response < 600)"
    and "body_json response = Some (PyDict kvs)"
    and "map_of kvs ''errors'' = None"
    and "map_of kvs ''data'' = Some d"
  shows "snd (github_graphql w hdrs query variables) = Inr d"
  using assms by (simp add: github_graphql_def dict_has_def)

lemma fetch_repository_id_of_data:
  assumes "snd (github_graphql w hdrs repository_query
             (PyDict [(''owner'', PyStr (REPO_OWNER cfg)), (''name'', PyStr (REPO_NAME cfg))])) = Inr d"
  shows "snd (fetch_repository_id cfg w hdrs) =
     (case d of
        PyDict kvs \<Rightarrow>
          (case dict_get kvs ''repository'' of
             PyDict repo \<Rightarrow>
               if \<not> dict_has repo ''id'' then
                 Inl (RuntimeError ''Unable to resolve repository ID from GitHub API response'')
               else
                 (case dict_get repo ''id'' of
                    PyStr repo_id \<Rightarrow>
                      if repo_id = [] then
                        Inl (RuntimeError ''GitHub repository ID was missing or invalid'')
                      else Inr repo_id
                  | _ \<Rightarrow> Inl (RuntimeError ''GitHub repository ID was missing or invalid''))
           | _ \<Rightarrow> Inl (RuntimeError ''Unable to resolve repository ID from GitHub API response''))
      | _ \<Rightarrow> Inl AttributeError)"
proof -
  obtain evs where "github_graphql w hdrs repository_query
             (PyDict [(''owner'', PyStr (REPO_OWNER cfg)), (''name'', PyStr (REPO_NAME cfg))]) = (evs, Inr d)"
    using assms by (metis prod.collapse)
  then show ?thesis by (simp add: fetch_repository_id_def)
qed

lemma fetch_repository_id_named:
  assumes "snd (github_graphql w hdrs repository_query
             (PyDict [(''owner'', PyStr (REPO_OWNER cfg)), (''name'', PyStr (REPO_NAME cfg))])) = Inr (PyDict kvs)"
  shows "case nonempty_str_at [''repository'', ''id''] (PyDict kvs) of
           Some s \<Rightarrow> snd (fetch_repository_id cfg w hdrs) = Inr s
         | None \<Rightarrow> names_field ''repository ID'' (snd (fetch_repository_id cfg w hdrs))"
  unfolding fetch_repository_id_of_data [OF assms]
  by (simp add: nonempty_str_at_def names_field_def dict_get_def dict_has_def repository_messages
      split: option.splits py_value.splits)

lemma create_discussion_of_data:
  assumes "snd (github_graphql w hdrs create_discussion_mutation
             (PyDict [(''input'',
                PyDict [(''repositoryId'', PyStr repo_id),
                        (''categoryId'', PyStr (DISCUSSION_CATEGORY_ID cfg)),
                        (''title'', PyStr title),
                        (''body'', PyStr body)])])) = Inr d"
  shows "snd (create_discussion cfg w hdrs repo_id title body) =
     (case d of
        PyDict kvs \<Rightarrow>
          (case (case dict_get kvs ''createDiscussion'' of
                   PyDict c \<Rightarrow> dict_get c ''discussion''
                 | _ \<Rightarrow> PyNone) of
             PyDict dis \<Rightarrow>
               if \<not> dict_has dis ''url'' then
                 Inl (RuntimeError ''GitHub did not return a discussion URL'')
               else
                 (case dict_get dis ''url'' of
                    PyStr u \<Rightarrow>
                      if u = [] then
                        Inl (RuntimeError ''GitHub discussion URL was missing or invalid'')
                      else Inr u
                  | _ \<Rightarrow> Inl (RuntimeError ''GitHub discussion URL was missing or invalid''))
           | _ \<Rightarrow> Inl (RuntimeError ''GitHub did not return a discussion URL''))
      | _ \<Rightarrow> Inl AttributeError)"
proof -
  obtain evs where "github_graphql w hdrs create_discussion_mutation
             (PyDict [(''input'',
                PyDict [(''repositoryId'', PyStr repo_id),
                        (''categoryId'', PyStr (DISCUSSION_CATEGORY_ID cfg)),
                        (''title'', PyStr title),
                        (''body'', PyStr body)])]) = (evs, Inr d)"
    using assms by (metis prod.collapse)
  then show ?thesis by (cases d) (simp_all add: create_discussion_def Let_def)
qed

lemma create_discussion_named:
  assumes "snd (github_graphql w hdrs create_discussion_mutation
             (PyDict [(''input'',
                PyDict [(''repositoryId'', PyStr repo_id),
                        (''categoryId'', PyStr (DISCUSSION_CATEGORY_ID cfg)),
                        (''title'', PyStr title),
                        (''body'', PyStr body)])])) = Inr (PyDict kvs)"
  shows "case nonempty_str_at [''createDiscussion'', ''discussion'', ''url''] (PyDict kvs) of
           Some u \<Rightarrow> snd (create_discussion cfg w hdrs repo_id title body) = Inr u
         | None \<Rightarrow> names_field ''discussion URL''
                     (snd (create_discussion cfg w hdrs repo_id title body))"
  unfolding create_discussion_of_data [OF assms]
  by (auto simp: nonempty_str_at_def names_field_def dict_get_def dict_has_def discussion_messages
      split: option.splits py_value.splits)

text \<open>
  What the two calls do with a response body that is a JSON object without the key
  \<open>errors\<close>, by the value \<open>d\<close> under its key \<open>data\<close>: when \<open>d\<close> is a JSON object, the
  string at the end of the path is returned if it is there and not empty, and the
  failure names the field otherwise; when \<open>d\<close> is not a JSON object, the call of
  \<open>get\<close> raises \<open>AttributeError\<close>.
\<close>

lemma fetch_repository_id_by_body:
  assumes "requests_post w (graphql_request hdrs repository_query
             (PyDict [(''owner'', PyStr (REPO_OWNER cfg)), (''name'', PyStr (REPO_NAME cfg))]))
           = Inr response"
    and "\<not> (400 \<le> status_code response \<and> status_code response < 600)"
    and "body_json response = Some (PyDict kvs)"
    and "map_of kvs ''errors'' = None"
    and "map_of kvs ''data'' = Some d"
  shows "case d of
           PyDict data \<Rightarrow>
             (case nonempty_str_at [''repository'', ''id''] d of
                Some s \<Rightarrow> snd (fetch_repository_id cfg w hdrs) = Inr s
              | None \<Rightarrow> names_field ''repository ID'' (snd (fetch_repository_id cfg w hdrs)))
         | _ \<Rightarrow> snd (fetch_repository_id cfg w hdrs) = Inl AttributeError"
proof -
  note a = github_graphql_data [OF assms]
  show ?thesis
  proof (cases d)
    case (PyDict data)
    then show ?thesis using fetch_repository_id_named [of w hdrs cfg data] a by simp
  qed (simp_all add: fetch_repository_id_of_data [OF a])
qed

lemma create_discussion_by_body:
  assumes "requests_post w (graphql_request hdrs create_discussion_mutation
             (PyDict [(''input'',
                PyDict [(''repositoryId'', PyStr repo_id),
                        (''categoryId'', PyStr (DISCUSSION_CATEGORY_ID cfg)),
                        (''title'', PyStr title),
                        (''body'', PyStr body)])]))
           = Inr response"
    and "\<not> (400 \<le> status_code response \<and> status_code response < 600)"
    and "body_json response = Some (PyDict kvs)"
    and "map_of kvs ''errors'' = None"
    and "map_of kvs ''data'' = Some d"
  shows "case d of
           PyDict data \<Rightarrow>
             (case nonempty_str_at [''createDiscussion'', ''discussion'', ''url''] d of
                Some u \<Rightarrow> snd (create_discussion cfg w hdrs repo_id title body) = Inr u
              | None \<Rightarrow> names_field ''discussion URL''
                          (snd (create_discussion cfg w hdrs repo_id title body)))
         | _ \<Rightarrow> snd (create_discussion cfg w hdrs repo_id title body) = Inl AttributeError"
proof -
  note a = github_graphql_data [OF assms]
  show ?thesis
  proof (cases d)
    case (PyDict data)
    then show ?thesis
      using create_discussion_named [of w hdrs repo_id cfg title body data] a by simp
  qed (simp_all add: create_discussion_of_data [OF a])
qed

lemma ascii_lower_eq:
  "ascii_lower c = CHR ''t'' \<longleftrightarrow> c \<in> {CHR ''t'', CHR ''T''}"
  "ascii_lower c = CHR ''r'' \<longleftrightarrow> c \<in> {CHR ''r'', CHR ''R''}"
  "ascii_lower c = CHR ''u'' \<longleftrightarrow> c \<in> {CHR ''u'', CHR ''U''}"
  "ascii_lower c = CHR ''e'' \<longleftrightarrow> c \<in> {CHR ''e'', CHR ''E''}"
  by (auto simp: ascii_lower_def)

lemma lower_true_iff:
  "lower v = ''true'' \<longleftrightarrow>
     (\<exists>a b c d. v = [a, b, c, d] \<and> a \<in> {CHR ''t'', CHR ''T''} \<and> b \<in> {CHR ''r'', CHR ''R''}
        \<and> c \<in> {CHR ''u'', CHR ''U''} \<and> d \<in> {CHR ''e'', CHR ''E''})"
proof -
  have "lower v = ''true'' \<longleftrightarrow>
     (\<exists>a b c d. v = [a, b, c, d] \<and> ascii_lower a = CHR ''t'' \<and> ascii_lower b = CHR ''r''
        \<and> ascii_lower c = CHR ''u'' \<and> ascii_lower d = CHR ''e'')"
    unfolding lower_def by (auto simp: map_eq_Cons_conv)
  then show ?thesis by (simp only: ascii_lower_eq)
qed

lemma load_dry_run: "load_config dry_run_environ = Inr dry_run_config"
  by (simp add: load_config_def dry_run_environ_def dry_run_config_def require_env_def
      environ_get_def load_repo_identity_def repo_identity_def lower_def ascii_lower_def)

lemma main_dry_run_posts:
  assumes "DRY_RUN cfg"
  shows "http_posts (fst (main cfg w)) = []"
  using assms
  by (simp add: main_def generate_programming_tip_def Let_def split: sum.splits prod.splits)

lemma main_dry_run_success:
  assumes "DRY_RUN cfg" and "get_current_day_info (utc_now w) = Inr di"
    and "snd (generate_programming_tip cfg w di) = Inr body"
  shows "main cfg w =
      ([Print (''Generating Daily Programming Insight for '' @ day_name di @
                '' ('' @ date di @ '')''),
        GroqCreate (completion_request cfg di),
        Print ''DRY_RUN enabled - not posting to GitHub.'',
        Print ''--- Generated Post ---'',
        Print body],
       Inr ())"
proof -
  have "fst (generate_programming_tip cfg w di) = [GroqCreate (completion_request cfg di)]"
    by (simp add: generate_programming_tip_def Let_def)
  then have "generate_programming_tip cfg w di = ([GroqCreate (completion_request cfg di)], Inr body)"
    using assms(3) by (metis prod.collapse)
  then show ?thesis using assms(1,2) by (simp add: main_def)
qed

lemma main_tip_failure:
  assumes "get_current_day_info (utc_now w) = Inr di"
    and "snd (generate_programming_tip cfg w di) = Inl e"
  shows "snd (main cfg w) = Inl e"
proof -
  obtain evs where "generate_programming_tip cfg w di = (evs, Inl e)"
    using assms(2) by (metis prod.collapse)
  then show ?thesis using assms(1) by (simp add: main_def)
qed

lemma count_from_eq: "count_from pat s n = n + count_sub pat s"
  by (induction s arbitrary: n) auto

lemma count_sub_eval: "count_sub pat s = count_from pat s 0"
  by (simp add: count_from_eq)

lemmas text_eval = count_from.simps strip_prefix.simps find_after.simps in_order.simps
  append.simps Cons_prefix_Cons prefix_Nil Nil_prefix char.inject simp_thms if_True if_False
  list.simps option.simps

lemmas prompt_text = prompt_before_date_def prompt_before_day_def prompt_before_language_def
  prompt_rules_def prompt_closing_def rightwards_arrow_def em_dash_def double_quote_def

lemma count_sub_map_le: "count_sub p s \<le> count_sub (map f p) (map f s)"
proof (induction s)
  case Nil
  then show ?case by simp
next
  case (Cons c cs)
  have "prefix (map f p) (f c # map f cs)" if "prefix p (c # cs)"
    using map_mono_prefix [OF that, of f] by simp
  then show ?case using Cons by auto
qed

lemma count_sub_skip:
  assumes "pat \<noteq> []" and "set d \<inter> set pat = {}"
  shows "count_sub pat (d @ b) = count_sub pat b"
  using assms(2)
proof (induction d)
  case Nil
  then show ?case by simp
next
  case (Cons x d)
  have "\<not> prefix pat (x # d @ b)"
  proof
    assume "prefix pat (x # d @ b)"
    then have "hd pat = x" using assms(1) by (cases pat) auto
    then have "x \<in> set pat" using assms(1) by (metis hd_in_set)
    then show False using Cons.prems by auto
  qed
  then show ?case using Cons by auto
qed

lemma prefix_before_barrier:
  assumes "d \<noteq> []" and "set d \<inter> set pat = {}"
  shows "prefix pat (u @ d @ b) \<longleftrightarrow> prefix pat u"
proof
  assume "prefix pat u"
  then show "prefix pat (u @ d @ b)" by (rule prefix_prefix)
next
  assume "prefix pat (u @ d @ b)"
  then consider "prefix pat u" | us where "pat = u @ us" and "prefix us (d @ b)"
    by (auto simp: prefix_append)
  then show "prefix pat u"
  proof cases
    case 1
    then show ?thesis .
  next
    case 2
    show ?thesis
    proof (cases us)
      case Nil
      then show ?thesis using 2 by simp
    next
      case (Cons y ys)
      then have "y = hd d" using 2(2) assms(1) by (cases d) auto
      then have "hd d \<in> set pat" using 2(1) Cons by simp
      moreover have "hd d \<in> set d" using assms(1) by simp
      ultimately show ?thesis using assms(2) by auto
    qed
  qed
qed

lemma count_sub_barrier:
  assumes "pat \<noteq> []" and "d \<noteq> []" and "set d \<inter> set pat = {}"
  shows "count_sub pat (a @ d @ b) = count_sub pat a + count_sub pat b"
proof (induction a)
  case Nil
  show ?case using count_sub_skip [OF assms(1,3)] assms(1) by simp
next
  case (Cons x a)
  have "prefix pat ((x # a) @ d @ b) \<longleftrightarrow> prefix pat (x # a)"
    by (rule prefix_before_barrier [OF assms(2,3)])
  then show ?case using Cons by simp
qed

lemma digit_class_eq:
  "digit_class c = CHR ''0'' \<longleftrightarrow> c \<in> set ''0123456789''"
  "digit_class c = CHR ''-'' \<longleftrightarrow> c = CHR ''-''"
  by (auto simp: digit_class_def)

lemma iso_date_chars:
  assumes "iso_date d"
  shows "d \<noteq> []" and "set d \<subseteq> set ''0123456789-''"
proof -
  from assms have m: "map digit_class d = ''0000-00-00''" by (simp add: iso_date_def)
  then show "d \<noteq> []" by auto
  show "set d \<subseteq> set ''0123456789-''"
  proof
    fix c assume "c \<in> set d"
    then have "digit_class c \<in> set (map digit_class d)" by simp
    then have "digit_class c = CHR ''0'' \<or> digit_class c = CHR ''-''" using m by auto
    then show "c \<in> set ''0123456789-''" using digit_class_eq [of c] by auto
  qed
qed

lemma strip_prefix_Some: "strip_prefix p s = Some r \<Longrightarrow> s = p @ r"
  by (induction p s rule: strip_prefix.induct) (auto split: if_splits)

lemma find_after_Some: "find_after p s = Some r \<Longrightarrow> \<exists>a. s = a @ p @ r"
proof (induction s)
  case Nil
  then show ?case using strip_prefix_Some [of p "[]" r] by auto
next
  case (Cons c cs)
  show ?case
  proof (cases "strip_prefix p (c # cs)")
    case None
    then have "find_after p cs = Some r" using Cons.prems by simp
    then obtain a where "cs = a @ p @ r" using Cons.IH by blast
    then have "c # cs = (c # a) @ p @ r" by simp
    then show ?thesis by blast
  next
    case (Some r')
    then have "r' = r" using Cons.prems by simp
    then have "c # cs = [] @ p @ r" using strip_prefix_Some [OF Some] by simp
    then show ?thesis by blast
  qed
qed

lemma in_order_seven:
  assumes "in_order [p1, p2, p3, p4, p5, p6, p7] s"
  shows "\<exists>s0 s1 s2 s3 s4 s5 s6 s7.
           s = s0 @ p1 @ s1 @ p2 @ s2 @ p3 @ s3 @ p4 @ s4 @ p5 @ s5 @ p6 @ s6 @ p7 @ s7"
proof -
  from assms obtain r1 where f1: "find_after p1 s = Some r1" and o1: "in_order [p2, p3, p4, p5, p6, p7] r1"
    by (auto split: option.splits)
  from o1 obtain r2 where f2: "find_after p2 r1 = Some r2" and o2: "in_order [p3, p4, p5, p6, p7] r2"
    by (auto split: option.splits)
  from o2 obtain r3 where f3: "find_after p3 r2 = Some r3" and o3: "in_order [p4, p5, p6, p7] r3"
    by (auto split: option.splits)
  from o3 obtain r4 where f4: "find_after p4 r3 = Some r4" and o4: "in_order [p5, p6, p7] r4"
    by (auto split: option.splits)
  from o4 obtain r5 where f5: "find_after p5 r4 = Some r5" and o5: "in_order [p6, p7] r5"
    by (auto split: option.splits)
  from o5 obtain r6 where f6: "find_after p6 r5 = Some r6" and o6: "in_order [p7] r6"
    by (auto split: option.splits)
  from o6 obtain r7 where f7: "find_after p7 r6 = Some r7"
    by (auto split: option.splits)
  from find_after_Some [OF f1] obtain a1 where "s = a1 @ p1 @ r1" by blast
  moreover from find_after_Some [OF f2] obtain a2 where "r1 = a2 @ p2 @ r2" by blast
  moreover from find_after_Some [OF f3] obtain a3 where "r2 = a3 @ p3 @ r3" by blast
  moreover from find_after_Some [OF f4] obtain a4 where "r3 = a4 @ p4 @ r4" by blast
  moreover from find_after_Some [OF f5] obtain a5 where "r4 = a5 @ p5 @ r5" by blast
  moreover from find_after_Some [OF f6] obtain a6 where "r5 = a6 @ p6 @ r6" by blast
  moreover from find_after_Some [OF f7] obtain a7 where "r6 = a7 @ p7 @ r7" by blast
  ultimately have "s = a1 @ p1 @ a2 @ p2 @ a3 @ p3 @ a4 @ p4 @ a5 @ p5 @ a6 @ p6 @ a7 @ p7 @ r7"
    by simp
  then show ?thesis by blast
qed

lemma prompt_rules_sections:
  "in_order
     [''\<newline>1. Introduction '' @ em_dash, ''\<newline>2. Topic Preview '' @ em_dash,
      ''\<newline>3. Fun Fact '' @ em_dash, ''\<newline>4. Tips/Notes '' @ em_dash,
      ''\<newline>5. Code Snippet '' @ em_dash, ''\<newline>6. Explanation '' @ em_dash,
      ''\<newline>7. Sources '' @ em_dash]
     prompt_rules"
  unfolding prompt_text by (simp only: text_eval)

lemma user_prompt_sections:
  "\<exists>s0 s1 s2 s3 s4 s5 s6 s7.
     build_user_prompt di =
       s0 @ (''\<newline>1. Introduction '' @ em_dash) @ s1 @ (''\<newline>2. Topic Preview '' @ em_dash) @
       s2 @ (''\<newline>3. Fun Fact '' @ em_dash) @ s3 @ (''\<newline>4. Tips/Notes '' @ em_dash) @
       s4 @ (''\<newline>5. Code Snippet '' @ em_dash) @ s5 @ (''\<newline>6. Explanation '' @ em_dash) @
       s6 @ (''\<newline>7. Sources '' @ em_dash) @ s7"
proof -
  from in_order_seven [OF prompt_rules_sections]
  obtain s0 s1 s2 s3 s4 s5 s6 s7 where
    "prompt_rules =
       s0 @ (''\<newline>1. Introduction '' @ em_dash) @ s1 @ (''\<newline>2. Topic Preview '' @ em_dash) @
       s2 @ (''\<newline>3. Fun Fact '' @ em_dash) @ s3 @ (''\<newline>4. Tips/Notes '' @ em_dash) @
       s4 @ (''\<newline>5. Code Snippet '' @ em_dash) @ s5 @ (''\<newline>6. Explanation '' @ em_dash) @
       s6 @ (''\<newline>7. Sources '' @ em_dash) @ s7"
    by blast
  then have "build_user_prompt di =
       (prompt_before_date @ date di @ prompt_before_day @ day_name di @
          prompt_before_language @ language di @ s0) @
       (''\<newline>1. Introduction '' @ em_dash) @ s1 @ (''\<newline>2. Topic Preview '' @ em_dash) @
       s2 @ (''\<newline>3. Fun Fact '' @ em_dash) @ s3 @ (''\<newline>4. Tips/Notes '' @ em_dash) @
       s4 @ (''\<newline>5. Code Snippet '' @ em_dash) @ s5 @ (''\<newline>6. Explanation '' @ em_dash) @
       s6 @ (''\<newline>7. Sources '' @ em_dash) @ (s7 @ language di @ prompt_closing)"
    by (simp add: build_user_prompt_def Let_def)
  then show ?thesis by blast
qed

lemma date_pattern_counts:
  "count_sub ''0000-00-00''
     (map digit_class prompt_before_date @ ''0000-00-00'' @ map digit_class prompt_before_day) = 1"
  "count_sub ''0000-00-00'' (map digit_class prompt_before_language) = 0"
  "count_sub ''0000-00-00'' (map digit_class prompt_rules) = 0"
  "count_sub ''0000-00-00'' (map digit_class prompt_closing) = 0"
  unfolding count_sub_eval prompt_text digit_class_def
  by (simp_all only: text_eval list.map list.set insert_iff empty_iff)

lemma date_count:
  assumes "iso_date d"
    and "day \<noteq> []" and "set day \<inter> set ''0123456789-'' = {}"
    and "lang \<noteq> []" and "set lang \<inter> set ''0123456789-'' = {}"
  shows "count_sub d
     (prompt_before_date @ d @ prompt_before_day @ day @ prompt_before_language @ lang @
      prompt_rules @ lang @ prompt_closing) = 1"
proof -
  let ?P = "prompt_before_date @ d @ prompt_before_day @ day @ prompt_before_language @ lang @
      prompt_rules @ lang @ prompt_closing"
  let ?pat = "''0000-00-00''"
  have d: "map digit_class d = ?pat" using assms(1) by (simp add: iso_date_def)
  have sp: "set ?pat = {CHR ''0'', CHR ''-''}" by auto
  have cls: "set (map digit_class w) \<inter> set ?pat = {}" if w: "set w \<inter> set ''0123456789-'' = {}" for w
  proof -
    have "digit_class c \<noteq> CHR ''0'' \<and> digit_class c \<noteq> CHR ''-''" if "c \<in> set w" for c
    proof -
      have "c \<notin> set ''0123456789-''" using that w by blast
      then show ?thesis using digit_class_eq [of c] by auto
    qed
    then show ?thesis unfolding sp set_map by blast
  qed
  let ?A = "map digit_class prompt_before_date @ ?pat @ map digit_class prompt_before_day"
  let ?C = "map digit_class prompt_rules @ map digit_class lang @ map digit_class prompt_closing"
  let ?B = "map digit_class prompt_before_language @ map digit_class lang @ ?C"
  have day': "map digit_class day \<noteq> []" "set (map digit_class day) \<inter> set ?pat = {}"
    using assms(2) cls [OF assms(3)] by simp_all
  have lang': "map digit_class lang \<noteq> []" "set (map digit_class lang) \<inter> set ?pat = {}"
    using assms(4) cls [OF assms(5)] by simp_all
  have pat: "?pat \<noteq> []" by simp
  have m: "map digit_class ?P = ?A @ map digit_class day @ ?B"
    by (simp only: map_append d append_assoc)
  have c1: "count_sub ?pat (?A @ map digit_class day @ ?B) = count_sub ?pat ?A + count_sub ?pat ?B"
    by (rule count_sub_barrier [OF pat day'])
  have c2: "count_sub ?pat ?B = count_sub ?pat (map digit_class prompt_before_language) + count_sub ?pat ?C"
    by (rule count_sub_barrier [OF pat lang'])
  have c3: "count_sub ?pat ?C =
      count_sub ?pat (map digit_class prompt_rules) + count_sub ?pat (map digit_class prompt_closing)"
    by (rule count_sub_barrier [OF pat lang'])
  have "count_sub ?pat (map digit_class ?P) = 1"
    by (simp only: m c1 c2 c3 date_pattern_counts add_0_right)
  then have "count_sub d ?P \<le> 1"
    using count_sub_map_le [of d ?P digit_class] d by simp
  moreover have "0 < count_sub d ?P"
    using count_sub_prefix_pos [of d "d @ prompt_before_day @ day @ prompt_before_language @ lang @
      prompt_rules @ lang @ prompt_closing"]
      count_sub_append_left [of d "d @ prompt_before_day @ day @ prompt_before_language @ lang @
      prompt_rules @ lang @ prompt_closing" prompt_before_date]
    by simp
  ultimately show ?thesis by simp
qed

lemma prompt_counts:
  assumes d: "iso_date d"
    and day: "day \<noteq> []" "set day \<inter> set ''0123456789-'' = {}"
    and lang: "lang \<noteq> []" "set lang \<inter> set ''0123456789-'' = {}"
    and nday: "count_sub day prompt_before_date +
        count_sub day (prompt_before_day @ day @ prompt_before_language @ lang @
          prompt_rules @ lang @ prompt_closing) = m"
    and nlang: "count_sub lang prompt_before_date +
        count_sub lang (prompt_before_day @ day @ prompt_before_language @ lang @
          prompt_rules @ lang @ prompt_closing) = n"
  shows "count_sub d (build_user_prompt \<lparr> day_name = day, language = lang, date = d \<rparr>) = 1
       \<and> count_sub day (build_user_prompt \<lparr> day_name = day, language = lang, date = d \<rparr>) = m
       \<and> count_sub lang (build_user_prompt \<lparr> day_name = day, language = lang, date = d \<rparr>) = n"
proof -
  let ?rest = "prompt_before_day @ day @ prompt_before_language @ lang @
          prompt_rules @ lang @ prompt_closing"
  have p: "build_user_prompt \<lparr> day_name = day, language = lang, date = d \<rparr> =
      prompt_before_date @ d @ ?rest"
    by (simp add: build_user_prompt_def Let_def)
  have dn: "d \<noteq> []" and ds: "set d \<subseteq> set ''0123456789-''"
    using iso_date_chars [OF d] by blast+
  have "set d \<inter> set day = {}" using ds day(2) by blast
  then have c_day: "count_sub day (prompt_before_date @ d @ ?rest) =
      count_sub day prompt_before_date + count_sub day ?rest"
    using day(1) dn by (intro count_sub_barrier)
  have "set d \<inter> set lang = {}" using ds lang(2) by blast
  then have c_lang: "count_sub lang (prompt_before_date @ d @ ?rest) =
      count_sub lang prompt_before_date + count_sub lang ?rest"
    using lang(1) dn by (intro count_sub_barrier)
  show ?thesis
    unfolding p using date_count [OF d day lang] c_day c_lang nday nlang by simp
qed

lemma counts_Sunday:
  "count_sub ''Sunday'' prompt_before_date +
     count_sub ''Sunday'' (prompt_before_day @ ''Sunday'' @ prompt_before_language @ ''Wildcard'' @
       prompt_rules @ ''Wildcard'' @ prompt_closing) = 2"
  "count_sub ''Wildcard'' prompt_before_date +
     count_sub ''Wildcard'' (prompt_before_day @ ''Sunday'' @ prompt_before_language @ ''Wildcard'' @
       prompt_rules @ ''Wildcard'' @ prompt_closing) = 3"
  unfolding count_sub_eval prompt_text
  by (simp_all only: text_eval)

lemma counts_Monday:
  "count_sub ''Monday'' prompt_before_date +
     count_sub ''Monday'' (prompt_before_day @ ''Monday'' @ prompt_before_language @ ''Python'' @
       prompt_rules @ ''Python'' @ prompt_closing) = 2"
  "count_sub ''Python'' prompt_before_date +
     count_sub ''Python'' (prompt_before_day @ ''Monday'' @ prompt_before_language @ ''Python'' @
       prompt_rules @ ''Python'' @ prompt_closing) = 4"
  unfolding count_sub_eval prompt_text
  by (simp_all only: text_eval)

lemma counts_Tuesday:
  "count_sub ''Tuesday'' prompt_before_date +
     count_sub ''Tuesday'' (prompt_before_day @ ''Tuesday'' @ prompt_before_language @ ''Java'' @
       prompt_rules @ ''Java'' @ prompt_closing) = 2"
  "count_sub ''Java'' prompt_before_date +
     count_sub ''Java'' (prompt_before_day @ ''Tuesday'' @ prompt_before_language @ ''Java'' @
       prompt_rules @ ''Java'' @ prompt_closing) = 4"
  unfolding count_sub_eval prompt_text
  by (simp_all only: text_eval)

lemma counts_Wednesday:
  "count_sub ''Wednesday'' prompt_before_date +
     count_sub ''Wednesday'' (prompt_before_day @ ''Wednesday'' @ prompt_before_language @ ''JavaScript'' @
       prompt_rules @ ''JavaScript'' @ prompt_closing) = 2"
  "count_sub ''JavaScript'' prompt_before_date +
     count_sub ''JavaScript'' (prompt_before_day @ ''Wednesday'' @ prompt_before_language @ ''JavaScript'' @
       prompt_rules @ ''JavaScript'' @ prompt_closing) = 3"
  unfolding count_sub_eval prompt_text
  by (simp_all only: text_eval)

lemma counts_Thursday:
  "count_sub ''Thursday'' prompt_before_date +
     count_sub ''Thursday'' (prompt_before_day @ ''Thursday'' @ prompt_before_language @ ''Go'' @
       prompt_rules @ ''Go'' @ prompt_closing) = 2"
  "count_sub ''Go'' prompt_before_date +
     count_sub ''Go'' (prompt_before_day @ ''Thursday'' @ prompt_before_language @ ''Go'' @
       prompt_rules @ ''Go'' @ prompt_closing) = 3"
  unfolding count_sub_eval prompt_text
  by (simp_all only: text_eval)

lemma counts_Friday:
  "count_sub ''Friday'' prompt_before_date +
     count_sub ''Friday'' (prompt_before_day @ ''Friday'' @ prompt_before_language @ ''Wildcard'' @
       prompt_rules @ ''Wildcard'' @ prompt_closing) = 2"
  "count_sub ''Wildcard'' prompt_before_date +
     count_sub ''Wildcard'' (prompt_before_day @ ''Friday'' @ prompt_before_language @ ''Wildcard'' @
       prompt_rules @ ''Wildcard'' @ prompt_closing) = 3"
  unfolding count_sub_eval prompt_text
  by (simp_all only: text_eval)

lemma counts_Saturday:
  "count_sub ''Saturday'' prompt_before_date +
     count_sub ''Saturday'' (prompt_before_day @ ''Saturday'' @ prompt_before_language @ ''Wildcard'' @
       prompt_rules @ ''Wildcard'' @ prompt_closing) = 2"
  "count_sub ''Wildcard'' prompt_before_date +
     count_sub ''Wildcard'' (prompt_before_day @ ''Saturday'' @ prompt_before_language @ ''Wildcard'' @
       prompt_rules @ ''Wildcard'' @ prompt_closing) = 3"
  unfolding count_sub_eval prompt_text
  by (simp_all only: text_eval)

lemma resolved_day_info:
  assumes "0 \<le> weekday now" and "weekday now \<le> 6" and "get_current_day_info now = Inr di"
  shows "di = \<lparr> day_name = ''Sunday'', language = ''Wildcard'', date = strftime_Ymd now \<rparr> \<or>
         di = \<lparr> day_name = ''Monday'', language = ''Python'', date = strftime_Ymd now \<rparr> \<or>
         di = \<lparr> day_name = ''Tuesday'', language = ''Java'', date = strftime_Ymd now \<rparr> \<or>
         di = \<lparr> day_name = ''Wednesday'', language = ''JavaScript'', date = strftime_Ymd now \<rparr> \<or>
         di = \<lparr> day_name = ''Thursday'', language = ''Go'', date = strftime_Ymd now \<rparr> \<or>
         di = \<lparr> day_name = ''Friday'', language = ''Wildcard'', date = strftime_Ymd now \<rparr> \<or>
         di = \<lparr> day_name = ''Saturday'', language = ''Wildcard'', date = strftime_Ymd now \<rparr>"
  using int_0_6_cases [OF assms(1,2)] assms(3)
  by (auto simp: get_current_day_info_def weekday_index_def DAY_NAMES_def LANGUAGE_SCHEDULE_def)

lemma example_resolved: "get_current_day_info example_now = Inr example_day_info"
  by (simp add: example_now_def example_day_info_def get_current_day_info_def weekday_index_def
      DAY_NAMES_def LANGUAGE_SCHEDULE_def)

section \<open>Schedule resolver: the weekday index and the tables\<close>

text \<open>
  C1. The library numbers the days Monday = 0 to Sunday = 6. For every instant, the
  index the resolver looks up is 0 when the library says 6 (Sunday) and the library's
  number plus one on every other day. That index is the library's number plus one
  modulo 7, it lies between 0 and 6, the day name found under it is the name of the
  library's day, and the resolver of either file returns the entries of its tables
  under that index together with the formatted date.
\<close>

theorem weekday_reindexing:
  assumes "0 \<le> weekday now" and "weekday now \<le> 6"
  shows "weekday_index now = (if weekday now = 6 then 0 else weekday now + 1)
       \<and> weekday_index now = (weekday now + 1) mod 7
       \<and> 0 \<le> weekday_index now \<and> weekday_index now \<le> 6
       \<and> DAY_NAMES (weekday_index now) = python_day_names (weekday now)
       \<and> DAY_NAMES_workflows (weekday_index now) = python_day_names (weekday now)
       \<and> get_current_day_info now =
           Inr \<lparr> day_name = the (DAY_NAMES (weekday_index now)),
                 language = the (LANGUAGE_SCHEDULE (weekday_index now)),
                 date = strftime_Ymd now \<rparr>
       \<and> get_current_day_info_workflows now =
           Inr \<lparr> day_name = the (DAY_NAMES_workflows (weekday_index now)),
                 language = the (LANGUAGE_SCHEDULE_workflows (weekday_index now)),
                 date = strftime_Ymd now \<rparr>"
  using int_0_6_cases [OF assms]
  by (auto simp: weekday_index_def get_current_day_info_def get_current_day_info_workflows_def
      DAY_NAMES_def DAY_NAMES_workflows_def LANGUAGE_SCHEDULE_def LANGUAGE_SCHEDULE_workflows_def
      python_day_names_def)

theorem weekday_reindexing_witness:
  "weekday_index \<lparr> weekday = 6, strftime_Ymd = ''2024-01-07'' \<rparr> = 0
   \<and> get_current_day_info \<lparr> weekday = 6, strftime_Ymd = ''2024-01-07'' \<rparr> =
       Inr \<lparr> day_name = ''Sunday'', language = ''Wildcard'', date = ''2024-01-07'' \<rparr>
   \<and> weekday_index \<lparr> weekday = 2, strftime_Ymd = ''2024-01-03'' \<rparr> = 3
   \<and> get_current_day_info_workflows \<lparr> weekday = 2, strftime_Ymd = ''2024-01-03'' \<rparr> =
       Inr \<lparr> day_name = ''Wednesday'', language = ''Go'', date = ''2024-01-03'' \<rparr>"
  using weekday_reindexing [of "\<lparr> weekday = 6, strftime_Ymd = ''2024-01-07'' \<rparr>"]
        weekday_reindexing [of "\<lparr> weekday = 2, strftime_Ymd = ''2024-01-03'' \<rparr>"]
  by (simp add: weekday_index_def DAY_NAMES_def DAY_NAMES_workflows_def LANGUAGE_SCHEDULE_def
      LANGUAGE_SCHEDULE_workflows_def)

text \<open>
  C7. The schedule is total: each index from 0 to 6 has an entry in the language table
  and in the day-name table, in either file. For every instant (the library's weekday
  being one of 0 to 6) the resolver returns the day name and the language of exactly
  one of the seven indices.
\<close>

theorem schedule_total:
  "(\<forall>i\<in>{0..6}. DAY_NAMES i \<noteq> None \<and> LANGUAGE_SCHEDULE i \<noteq> None
        \<and> DAY_NAMES_workflows i \<noteq> None \<and> LANGUAGE_SCHEDULE_workflows i \<noteq> None)
   \<and> (\<forall>now. 0 \<le> weekday now \<and> weekday now \<le> 6 \<longrightarrow>
        (\<exists>!i. i \<in> {0..6} \<and>
           get_current_day_info now =
             Inr \<lparr> day_name = the (DAY_NAMES i), language = the (LANGUAGE_SCHEDULE i),
                   date = strftime_Ymd now \<rparr>)
      \<and> (\<exists>!i. i \<in> {0..6} \<and>
           get_current_day_info_workflows now =
             Inr \<lparr> day_name = the (DAY_NAMES_workflows i),
                   language = the (LANGUAGE_SCHEDULE_workflows i),
                   date = strftime_Ymd now \<rparr>))"
proof (intro conjI ballI allI impI)
  fix i :: int assume "i \<in> {0..6}"
  then have c: "i = 0 \<or> i = 1 \<or> i = 2 \<or> i = 3 \<or> i = 4 \<or> i = 5 \<or> i = 6"
    using int_0_6_cases by simp
  from c show "DAY_NAMES i \<noteq> None" by (auto simp: DAY_NAMES_def)
  from c show "LANGUAGE_SCHEDULE i \<noteq> None" by (auto simp: LANGUAGE_SCHEDULE_def)
  from c show "DAY_NAMES_workflows i \<noteq> None" by (auto simp: DAY_NAMES_workflows_def)
  from c show "LANGUAGE_SCHEDULE_workflows i \<noteq> None"
    by (auto simp: LANGUAGE_SCHEDULE_workflows_def)
next
  fix now :: datetime assume r: "0 \<le> weekday now \<and> weekday now \<le> 6"
  then have c: "weekday now = 0 \<or> weekday now = 1 \<or> weekday now = 2 \<or> weekday now = 3
      \<or> weekday now = 4 \<or> weekday now = 5 \<or> weekday now = 6"
    using int_0_6_cases by simp
  have range: "weekday_index now \<in> {0..6}"
    using r by (simp add: weekday_index_def)
  have names: "i = j"
    if "i \<in> {0..6}" and "j \<in> {0..6}" and e: "the (DAY_NAMES i) = the (DAY_NAMES j)" for i j
  proof -
    from that have "i = 0 \<or> i = 1 \<or> i = 2 \<or> i = 3 \<or> i = 4 \<or> i = 5 \<or> i = 6"
      and "j = 0 \<or> j = 1 \<or> j = 2 \<or> j = 3 \<or> j = 4 \<or> j = 5 \<or> j = 6"
      using int_0_6_cases by simp_all
    with e show "i = j" by (elim disjE) (simp_all add: DAY_NAMES_def)
  qed
  have same: "DAY_NAMES_workflows = DAY_NAMES"
    by (simp add: DAY_NAMES_def DAY_NAMES_workflows_def)
  have g: "get_current_day_info now =
      Inr \<lparr> day_name = the (DAY_NAMES (weekday_index now)),
            language = the (LANGUAGE_SCHEDULE (weekday_index now)), date = strftime_Ymd now \<rparr>"
    using c
    by (auto simp: weekday_index_def get_current_day_info_def DAY_NAMES_def LANGUAGE_SCHEDULE_def)
  have gw: "get_current_day_info_workflows now =
      Inr \<lparr> day_name = the (DAY_NAMES_workflows (weekday_index now)),
            language = the (LANGUAGE_SCHEDULE_workflows (weekday_index now)),
            date = strftime_Ymd now \<rparr>"
    using c
    by (auto simp: weekday_index_def get_current_day_info_workflows_def DAY_NAMES_workflows_def
        LANGUAGE_SCHEDULE_workflows_def)
  show "\<exists>!i. i \<in> {0..6} \<and> get_current_day_info now =
             Inr \<lparr> day_name = the (DAY_NAMES i), language = the (LANGUAGE_SCHEDULE i),
                   date = strftime_Ymd now \<rparr>"
  proof (rule ex1I [of _ "weekday_index now"])
    show "weekday_index now \<in> {0..6} \<and> get_current_day_info now =
             Inr \<lparr> day_name = the (DAY_NAMES (weekday_index now)),
                   language = the (LANGUAGE_SCHEDULE (weekday_index now)),
                   date = strftime_Ymd now \<rparr>"
      using range g by simp
  next
    fix i assume "i \<in> {0..6} \<and> get_current_day_info now =
             Inr \<lparr> day_name = the (DAY_NAMES i), language = the (LANGUAGE_SCHEDULE i),
                   date = strftime_Ymd now \<rparr>"
    then show "i = weekday_index now"
      using g range names [of i "weekday_index now"] by simp
  qed
  show "\<exists>!i. i \<in> {0..6} \<and> get_current_day_info_workflows now =
             Inr \<lparr> day_name = the (DAY_NAMES_workflows i),
                   language = the (LANGUAGE_SCHEDULE_workflows i),
                   date = strftime_Ymd now \<rparr>"
  proof (rule ex1I [of _ "weekday_index now"])
    show "weekday_index now \<in> {0..6} \<and> get_current_day_info_workflows now =
             Inr \<lparr> day_name = the (DAY_NAMES_workflows (weekday_index now)),
                   language = the (LANGUAGE_SCHEDULE_workflows (weekday_index now)),
                   date = strftime_Ymd now \<rparr>"
      using range gw by simp
  next
    fix i assume "i \<in> {0..6} \<and> get_current_day_info_workflows now =
             Inr \<lparr> day_name = the (DAY_NAMES_workflows i),
                   language = the (LANGUAGE_SCHEDULE_workflows i),
                   date = strftime_Ymd now \<rparr>"
    then show "i = weekday_index now"
      using gw range names [of i "weekday_index now"] same by simp
  qed
qed

theorem schedule_total_witness:
  "DAY_NAMES 3 \<noteq> None \<and> LANGUAGE_SCHEDULE 3 \<noteq> None
   \<and> DAY_NAMES_workflows 3 \<noteq> None \<and> LANGUAGE_SCHEDULE_workflows 3 \<noteq> None
   \<and> (\<exists>!i. i \<in> {0..6} \<and>
        get_current_day_info \<lparr> weekday = 0, strftime_Ymd = ''2024-01-01'' \<rparr> =
          Inr \<lparr> day_name = the (DAY_NAMES i), language = the (LANGUAGE_SCHEDULE i),
                date = ''2024-01-01'' \<rparr>)"
proof -
  have in_range: "(3::int) \<in> {0..6}" by simp
  have weekday_ok: "0 \<le> weekday \<lparr> weekday = 0, strftime_Ymd = ''2024-01-01'' \<rparr>
      \<and> weekday \<lparr> weekday = 0, strftime_Ymd = ''2024-01-01'' \<rparr> \<le> 6"
    by simp
  from schedule_total have entries: "\<forall>i\<in>{0..6}. DAY_NAMES i \<noteq> None \<and> LANGUAGE_SCHEDULE i \<noteq> None
        \<and> DAY_NAMES_workflows i \<noteq> None \<and> LANGUAGE_SCHEDULE_workflows i \<noteq> None"
    by (rule conjunct1)
  from schedule_total have
    "\<exists>!i. i \<in> {0..6} \<and>
        get_current_day_info \<lparr> weekday = 0, strftime_Ymd = ''2024-01-01'' \<rparr> =
          Inr \<lparr> day_name = the (DAY_NAMES i), language = the (LANGUAGE_SCHEDULE i),
                date = strftime_Ymd \<lparr> weekday = 0, strftime_Ymd = ''2024-01-01'' \<rparr> \<rparr>"
    using weekday_ok by blast
  then show ?thesis using entries [rule_format, OF in_range] by simp
qed

text \<open>
  C9. The language tables of the two files differ at the indices 3 and 4 and nowhere
  else: under 3 (Wednesday) the scripts file has JavaScript and the workflows file Go,
  under 4 (Thursday) the scripts file has Go and the workflows file JavaScript. The
  day-name tables are the same.
\<close>

theorem schedule_tables_differ:
  "(LANGUAGE_SCHEDULE i \<noteq> LANGUAGE_SCHEDULE_workflows i) = (i = 3 \<or> i = 4)
   \<and> DAY_NAMES 3 = Some ''Wednesday'' \<and> DAY_NAMES 4 = Some ''Thursday''
   \<and> DAY_NAMES_workflows 3 = Some ''Wednesday'' \<and> DAY_NAMES_workflows 4 = Some ''Thursday''
   \<and> LANGUAGE_SCHEDULE 3 = Some ''JavaScript'' \<and> LANGUAGE_SCHEDULE 4 = Some ''Go''
   \<and> LANGUAGE_SCHEDULE_workflows 3 = Some ''Go''
   \<and> LANGUAGE_SCHEDULE_workflows 4 = Some ''JavaScript''
   \<and> DAY_NAMES i = DAY_NAMES_workflows i"
  by (simp add: DAY_NAMES_def DAY_NAMES_workflows_def LANGUAGE_SCHEDULE_def
      LANGUAGE_SCHEDULE_workflows_def)

section \<open>Environment loader: required values and the repository identity\<close>

text \<open>
  C8. For every key, \<open>require_env\<close> reads the value of the key; when the value is
  absent or empty it fails with the error whose message is
  "Missing required environment variable: " followed by the key, so the message names
  the key; otherwise it returns the value as it is. The loader requires four keys this
  way, and fails with such a configuration error when one of them is absent or empty.
\<close>

theorem require_env_contract:
  "((env k = None \<or> env k = Some []) \<longrightarrow>
       require_env env k = Inl (RuntimeError (''Missing required environment variable: '' @ k))
       \<and> is_substring k (''Missing required environment variable: '' @ k))
   \<and> (\<forall>v. env k = Some v \<and> v \<noteq> [] \<longrightarrow> require_env env k = Inr v)
   \<and> (k \<in> {''GITHUB_TOKEN'', ''GROQ_API_KEY'', ''REPO_NAME'', ''DISCUSSION_CATEGORY_ID''}
        \<and> (env k = None \<or> env k = Some []) \<longrightarrow>
       (\<exists>msg. load_config env = Inl (RuntimeError msg)))"
proof (intro conjI impI allI)
  assume "env k = None \<or> env k = Some []"
  then show "require_env env k =
      Inl (RuntimeError (''Missing required environment variable: '' @ k))"
    by (auto simp: require_env_def)
next
  show "is_substring k (''Missing required environment variable: '' @ k)"
    using is_substring_mid [of k "''Missing required environment variable: ''" "[]"] by simp
next
  fix v assume "env k = Some v \<and> v \<noteq> []"
  then show "require_env env k = Inr v" by (simp add: require_env_def)
next
  assume a: "k \<in> {''GITHUB_TOKEN'', ''GROQ_API_KEY'', ''REPO_NAME'', ''DISCUSSION_CATEGORY_ID''}
        \<and> (env k = None \<or> env k = Some [])"
  then have miss: "require_env env k =
      Inl (RuntimeError (''Missing required environment variable: '' @ k))"
    by (auto simp: require_env_def)
  have req: "\<exists>msg. e = RuntimeError msg" if "require_env env k' = Inl e" for k' e
    using that by (auto simp: require_env_def split: option.splits if_splits)
  have name: "\<exists>v. require_env env ''REPO_NAME'' = Inr v" if "load_repo_identity env = Inr p" for p
    using that by (auto simp: load_repo_identity_def split: sum.splits)
  show "\<exists>msg. load_config env = Inl (RuntimeError msg)"
  proof (cases "require_env env ''GITHUB_TOKEN''")
    case (Inl e)
    then show ?thesis using req [OF Inl] by (auto simp: load_config_def)
  next
    case t: (Inr tok)
    show ?thesis
    proof (cases "require_env env ''GROQ_API_KEY''")
      case (Inl e)
      then show ?thesis using req [OF Inl] t by (auto simp: load_config_def)
    next
      case g: (Inr key)
      show ?thesis
      proof (cases "load_repo_identity env")
        case (Inl e)
        then show ?thesis using load_repo_identity_error [OF Inl] t g
          by (auto simp: load_config_def)
      next
        case r: (Inr p)
        show ?thesis
        proof (cases "require_env env ''DISCUSSION_CATEGORY_ID''")
          case (Inl e)
          then show ?thesis using req [OF Inl] t g r
            by (auto simp: load_config_def split: prod.splits)
        next
          case d: (Inr cat)
          from a t g d name [OF r] miss have False by auto
          then show ?thesis ..
        qed
      qed
    qed
  qed
qed

theorem require_env_contract_witness:
  "require_env [''GITHUB_TOKEN'' \<mapsto> ''''] ''GITHUB_TOKEN'' =
     Inl (RuntimeError ''Missing required environment variable: GITHUB_TOKEN'')
   \<and> is_substring ''GITHUB_TOKEN'' ''Missing required environment variable: GITHUB_TOKEN''
   \<and> require_env [''GROQ_API_KEY'' \<mapsto> ''gsk_1''] ''GROQ_API_KEY'' = Inr ''gsk_1''
   \<and> (\<exists>msg. load_config [''GITHUB_TOKEN'' \<mapsto> ''''] = Inl (RuntimeError msg))"
  using require_env_contract [of "[''GITHUB_TOKEN'' \<mapsto> '''']" "''GITHUB_TOKEN''"]
        require_env_contract [of "[''GROQ_API_KEY'' \<mapsto> ''gsk_1'']" "''GROQ_API_KEY''"]
  by simp

text \<open>
  C4. For every value of the repository name (a value that is present, that is, not
  empty): when it holds a "/" the loader splits it into the owner before the separator
  and the name after it, whatever the separate owner value is; when it holds none and
  an owner is supplied (not empty), the owner and the name are used as given; when it
  holds none and the owner is absent or empty, loading fails with the configuration
  error about \<open>REPO_OWNER\<close>.
\<close>

theorem repo_identity_rule:
  assumes "env ''REPO_NAME'' = Some raw" and "raw \<noteq> []"
  shows "(CHR ''/'' \<in> set raw \<longrightarrow>
            (\<exists>owner name. load_repo_identity env = Inr (owner, name)
               \<and> raw = owner @ ''/'' @ name \<and> CHR ''/'' \<notin> set owner))
       \<and> (CHR ''/'' \<notin> set raw \<longrightarrow>
            (\<forall>owner. env ''REPO_OWNER'' = Some owner \<and> owner \<noteq> [] \<longrightarrow>
               load_repo_identity env = Inr (owner, raw)))
       \<and> (CHR ''/'' \<notin> set raw \<and> (env ''REPO_OWNER'' = None \<or> env ''REPO_OWNER'' = Some []) \<longrightarrow>
            load_repo_identity env = Inl (RuntimeError
              ''REPO_OWNER environment variable is required when REPO_NAME does not include the owner''))"
proof (intro conjI impI)
  assume "CHR ''/'' \<in> set raw"
  then obtain a b where ab: "raw = a @ CHR ''/'' # b" "CHR ''/'' \<notin> set a"
    by (meson split_list_first)
  then have "load_repo_identity env = Inr (a, b)"
    using assms repo_identity_slug [of a "env ''REPO_OWNER''" b]
    by (simp add: load_repo_identity_def require_env_def)
  with ab show "\<exists>owner name. load_repo_identity env = Inr (owner, name)
               \<and> raw = owner @ ''/'' @ name \<and> CHR ''/'' \<notin> set owner"
    by auto
next
  assume "CHR ''/'' \<notin> set raw"
  then show "\<forall>owner. env ''REPO_OWNER'' = Some owner \<and> owner \<noteq> [] \<longrightarrow>
               load_repo_identity env = Inr (owner, raw)"
    using assms by (simp add: load_repo_identity_def require_env_def repo_identity_def)
next
  assume "CHR ''/'' \<notin> set raw \<and> (env ''REPO_OWNER'' = None \<or> env ''REPO_OWNER'' = Some [])"
  then show "load_repo_identity env = Inl (RuntimeError
              ''REPO_OWNER environment variable is required when REPO_NAME does not include the owner'')"
    using assms by (auto simp: load_repo_identity_def require_env_def repo_identity_def)
qed

theorem repo_identity_rule_witness:
  "load_repo_identity [''REPO_NAME'' \<mapsto> ''acme/widgets''] = Inr (''acme'', ''widgets'')
   \<and> load_repo_identity [''REPO_NAME'' \<mapsto> ''widgets'', ''REPO_OWNER'' \<mapsto> ''acme''] =
       Inr (''acme'', ''widgets'')
   \<and> load_repo_identity [''REPO_NAME'' \<mapsto> ''widgets''] =
       Inl (RuntimeError
         ''REPO_OWNER environment variable is required when REPO_NAME does not include the owner'')"
  using repo_identity_rule [of "[''REPO_NAME'' \<mapsto> ''acme/widgets'']" "''acme/widgets''"]
        repo_identity_rule [of "[''REPO_NAME'' \<mapsto> ''widgets'', ''REPO_OWNER'' \<mapsto> ''acme'']"
          "''widgets''"]
        repo_identity_rule [of "[''REPO_NAME'' \<mapsto> ''widgets'']" "''widgets''"]
  by (simp add: load_repo_identity_def require_env_def repo_identity_def)

text \<open>
  C10. When the repository name holds more than one "/", the loader splits at the
  first one only: the owner is the text before the first separator, and the name is
  all the text after it, further separators included.
\<close>

theorem split_at_first_separator:
  assumes "env ''REPO_NAME'' = Some (owner @ ''/'' @ rest)" and "CHR ''/'' \<notin> set owner"
  shows "load_repo_identity env = Inr (owner, rest)"
  using assms repo_identity_slug [of owner "env ''REPO_OWNER''" rest]
  by (simp add: load_repo_identity_def require_env_def)

theorem split_at_first_separator_witness:
  "load_repo_identity [''REPO_NAME'' \<mapsto> ''a/b/c''] = Inr (''a'', ''b/c'')"
  using split_at_first_separator [of "[''REPO_NAME'' \<mapsto> ''a/b/c'']" "''a''" "''b/c''"]
  by simp

section \<open>Completion client: reading the response\<close>

text \<open>
  C3. Given the response of the completion service, the completion client fails with an
  error when the list of choices is empty, when the content of the first choice's
  message is absent or is not a string, and when the content is a string that is empty
  or all white space, which is when trimming leaves nothing; otherwise it returns the
  trimmed content, and nothing else: the content is white-space characters, then the
  result, then white-space characters, and the result neither starts nor ends with a
  white-space character.
\<close>

theorem completion_content_contract:
  assumes "groq_create w (completion_request cfg di) = Inr response"
  shows "(choices response = [] \<longrightarrow>
            snd (generate_programming_tip cfg w di) =
              Inl (RuntimeError ''Groq completion response did not contain choices''))
       \<and> (\<forall>c cs. choices response = c # cs \<longrightarrow>
            ((\<forall>text. content (message c) \<noteq> Some (PyStr text)) \<longrightarrow>
               snd (generate_programming_tip cfg w di) =
                 Inl (RuntimeError ''Received empty or non-string content from Groq completion''))
          \<and> (\<forall>text. content (message c) = Some (PyStr text) \<longrightarrow>
               (if strip text = []
                then \<exists>msg. snd (generate_programming_tip cfg w di) = Inl (RuntimeError msg)
                else snd (generate_programming_tip cfg w di) = Inr (strip text))))
       \<and> (\<forall>text.
            (strip text = [] \<longleftrightarrow> (\<exists>ts. set ts \<subseteq> set whitespace \<and> text = concat ts))
            \<and> (\<exists>ls rs. set ls \<subseteq> set whitespace \<and> set rs \<subseteq> set whitespace
                  \<and> text = concat ls @ strip text @ concat rs)
            \<and> (\<forall>t\<in>set whitespace. \<not> prefix t (strip text) \<and> \<not> suffix t (strip text)))"
proof (intro conjI allI impI ballI)
  assume "choices response = []"
  then show "snd (generate_programming_tip cfg w di) =
      Inl (RuntimeError ''Groq completion response did not contain choices'')"
    using tip_of_response [OF assms] by simp
next
  fix c cs
  assume c: "choices response = c # cs"
    and n: "\<forall>body. content (message c) \<noteq> Some (PyStr body)"
  then show "snd (generate_programming_tip cfg w di) =
      Inl (RuntimeError ''Received empty or non-string content from Groq completion'')"
    using tip_of_response [OF assms] by (simp split: option.splits py_value.splits)
next
  fix c cs body
  assume c: "choices response = c # cs" and t: "content (message c) = Some (PyStr body)"
  have "body = [] \<Longrightarrow> strip body = []"
    using strip_empty_iff [of body] by (metis concat.simps(1) empty_subsetI list.set(1))
  then show "if strip body = []
        then \<exists>msg. snd (generate_programming_tip cfg w di) = Inl (RuntimeError msg)
        else snd (generate_programming_tip cfg w di) = Inr (strip body)"
    using tip_of_response [OF assms] c t by auto
next
  fix body
  show "(strip body = []) = (\<exists>ts. set ts \<subseteq> set whitespace \<and> body = concat ts)"
    by (rule strip_empty_iff)
next
  fix body
  show "\<exists>ls rs. set ls \<subseteq> set whitespace \<and> set rs \<subseteq> set whitespace
      \<and> body = concat ls @ strip body @ concat rs"
    by (rule strip_decomposition)
next
  fix body t assume "t \<in> set whitespace"
  then show "\<not> prefix t (strip body)" using strip_ends by blast
next
  fix body t assume "t \<in> set whitespace"
  then show "\<not> suffix t (strip body)" using strip_ends by blast
qed

theorem completion_content_contract_witness:
  "snd (generate_programming_tip example_config
          (example_world
             (Inr (Completion [Choice (Message (Some (PyStr ''  Use list comprehensions.\<newline>'')))]))
             PyNone)
          example_day_info)
     = Inr ''Use list comprehensions.''"
  using completion_content_contract
    [of "example_world
           (Inr (Completion [Choice (Message (Some (PyStr ''  Use list comprehensions.\<newline>'')))]))
           PyNone"
        example_config example_day_info
        "Completion [Choice (Message (Some (PyStr ''  Use list comprehensions.\<newline>'')))]"]
  by (simp add: example_world_def strip_examples)

section \<open>Publisher: failures of the GraphQL calls\<close>

text \<open>
  C5 at the response body \<open>{"data": null}\<close>, received with status 200. The claim asks
  of a response without the nested repository id or discussion url that
  \<open>fetch_repository_id\<close> and \<open>create_discussion\<close> fail with an error naming the
  missing field. On this body both fail with \<open>AttributeError\<close>, raised by the call of
  \<open>get\<close> on the value under \<open>data\<close>, and the error names no field. One level
  further down the same absence is caught: on \<open>{"data": {"repository": null}}\<close> and
  on \<open>{"data": {"createDiscussion": null}}\<close> the failures are the errors that name
  the repository ID and the discussion URL.
\<close>

theorem graphql_null_data_failure:
  "snd (fetch_repository_id example_config
          (example_world (Inl (APIError [])) (PyDict [(''data'', PyNone)])) []) =
     Inl AttributeError
   \<and> snd (create_discussion example_config
          (example_world (Inl (APIError [])) (PyDict [(''data'', PyNone)])) []
          ''R_123'' ''Title'' ''Body'') =
     Inl AttributeError
   \<and> snd (fetch_repository_id example_config
          (example_world (Inl (APIError []))
             (PyDict [(''data'', PyDict [(''repository'', PyNone)])])) []) =
     Inl (RuntimeError ''Unable to resolve repository ID from GitHub API response'')
   \<and> snd (create_discussion example_config
          (example_world (Inl (APIError []))
             (PyDict [(''data'', PyDict [(''createDiscussion'', PyNone)])])) []
          ''R_123'' ''Title'' ''Body'') =
     Inl (RuntimeError ''GitHub did not return a discussion URL'')"
  by (simp add: example_world_def github_graphql_def fetch_repository_id_def create_discussion_def
      dict_has_def dict_get_def)

section \<open>Orchestrator: the dry run\<close>

text \<open>
  C2, as amended. When the value of \<open>DRY_RUN\<close> in the environment is "true" in any
  mix of upper and lower case and the configuration loads, the flag is set and a run
  posts nothing to the GraphQL endpoint, so neither \<open>fetch_repository_id\<close> nor
  \<open>create_discussion\<close> is called. When the completion client returns a body, the run
  prints the line that announces the generation, the dry-run notice, a separator and
  the body, and ends without error; the title is not printed. When the completion
  client fails, the run fails with that error.
\<close>

theorem dry_run_short_circuit:
  assumes "env ''DRY_RUN'' = Some v" and "lower v = ''true''" and "load_config env = Inr cfg"
  shows "DRY_RUN cfg
       \<and> run_script env w = main cfg w
       \<and> http_posts (fst (main cfg w)) = []
       \<and> (\<forall>di body. get_current_day_info (utc_now w) = Inr di
              \<and> snd (generate_programming_tip cfg w di) = Inr body \<longrightarrow>
            main cfg w =
              ([Print (''Generating Daily Programming Insight for '' @ day_name di @
                        '' ('' @ date di @ '')''),
                GroqCreate (completion_request cfg di),
                Print ''DRY_RUN enabled - not posting to GitHub.'',
                Print ''--- Generated Post ---'',
                Print body],
               Inr ()))
       \<and> (\<forall>di e. get_current_day_info (utc_now w) = Inr di
              \<and> snd (generate_programming_tip cfg w di) = Inl e \<longrightarrow>
            snd (main cfg w) = Inl e)
       \<and> (\<exists>a b c d. v = [a, b, c, d] \<and> a \<in> {CHR ''t'', CHR ''T''} \<and> b \<in> {CHR ''r'', CHR ''R''}
              \<and> c \<in> {CHR ''u'', CHR ''U''} \<and> d \<in> {CHR ''e'', CHR ''E''})"
proof -
  have flag: "DRY_RUN cfg"
    using assms
    by (auto simp: load_config_def environ_get_def Let_def split: sum.splits prod.splits)
  have "run_script env w = main cfg w"
    using assms(3) by (simp add: run_script_def)
  moreover have "http_posts (fst (main cfg w)) = []"
    using flag by (rule main_dry_run_posts)
  moreover have "\<exists>a b c d. v = [a, b, c, d] \<and> a \<in> {CHR ''t'', CHR ''T''} \<and> b \<in> {CHR ''r'', CHR ''R''}
              \<and> c \<in> {CHR ''u'', CHR ''U''} \<and> d \<in> {CHR ''e'', CHR ''E''}"
    using assms(2) lower_true_iff by blast
  ultimately show ?thesis
    using flag main_dry_run_success [OF flag] main_tip_failure by blast
qed

theorem dry_run_short_circuit_witness:
  "DRY_RUN dry_run_config
   \<and> http_posts (fst (run_script dry_run_environ (example_world (Inr tip_completion) PyNone))) = []
   \<and> run_script dry_run_environ (example_world (Inr tip_completion) PyNone) =
       ([Print ''Generating Daily Programming Insight for Monday (2024-01-01)'',
         GroqCreate (completion_request dry_run_config example_day_info),
         Print ''DRY_RUN enabled - not posting to GitHub.'',
         Print ''--- Generated Post ---'',
         Print ''Tip body''],
        Inr ())"
proof -
  have v: "dry_run_environ ''DRY_RUN'' = Some ''TRUE''"
    by (simp add: dry_run_environ_def)
  have l: "lower ''TRUE'' = ''true''"
    by (simp add: lower_def ascii_lower_def)
  have d: "get_current_day_info (utc_now (example_world (Inr tip_completion) PyNone)) =
      Inr example_day_info"
    by (simp add: example_world_def example_resolved)
  have t: "snd (generate_programming_tip dry_run_config (example_world (Inr tip_completion) PyNone)
      example_day_info) = Inr ''Tip body''"
    by (simp add: generate_programming_tip_def example_world_def tip_completion_def
        strip_examples)
  show ?thesis
    using dry_run_short_circuit [OF v l load_dry_run, of "example_world (Inr tip_completion) PyNone"]
      d t
    by (simp add: example_day_info_def)
qed

text \<open>
  C2 as stated fails on a run with \<open>DRY_RUN\<close> set to "TRUE" on Monday 2024-01-01:
  the four printed lines do not hold the title
  "Daily Programming Insight (em dash) 2024-01-01 (Monday)". And when the completion
  service raises, the run does not end successfully.
\<close>

theorem dry_run_title_counterexample:
  "printed (fst (run_script dry_run_environ (example_world (Inr tip_completion) PyNone))) =
     [''Generating Daily Programming Insight for Monday (2024-01-01)'',
      ''DRY_RUN enabled - not posting to GitHub.'',
      ''--- Generated Post ---'',
      ''Tip body'']
   \<and> \<not> list_ex (is_substring (''Daily Programming Insight '' @ em_dash @ '' 2024-01-01 (Monday)''))
         (printed (fst (run_script dry_run_environ (example_world (Inr tip_completion) PyNone))))
   \<and> snd (run_script dry_run_environ (example_world (Inl (APIError ''rate limit'')) PyNone)) =
       Inl (APIError ''rate limit'')"
proof -
  have p: "printed (fst (run_script dry_run_environ (example_world (Inr tip_completion) PyNone))) =
     [''Generating Daily Programming Insight for Monday (2024-01-01)'',
      ''DRY_RUN enabled - not posting to GitHub.'',
      ''--- Generated Post ---'',
      ''Tip body'']"
    by (simp add: run_script_def load_dry_run main_def example_world_def example_resolved
        example_day_info_def generate_programming_tip_def tip_completion_def strip_examples
        dry_run_config_def)
  have n: "\<not> list_ex (is_substring (''Daily Programming Insight '' @ em_dash @ '' 2024-01-01 (Monday)''))
     [''Generating Daily Programming Insight for Monday (2024-01-01)'',
      ''DRY_RUN enabled - not posting to GitHub.'',
      ''--- Generated Post ---'',
      ''Tip body'']"
    by (simp add: is_substring_def em_dash_def)
  have f: "snd (run_script dry_run_environ (example_world (Inl (APIError ''rate limit'')) PyNone)) =
       Inl (APIError ''rate limit'')"
    by (simp add: run_script_def load_dry_run main_def example_world_def example_resolved
        generate_programming_tip_def)
  show ?thesis using p n f by simp
qed

section \<open>Prompt builder: what the rendered prompt holds\<close>

text \<open>
  C6, as amended. For every day information the resolver returns (the library's
  weekday being one of 0 to 6, the date having the form of four digits, two digits and
  two digits joined by hyphens), the prompt holds the date exactly once and the day
  name exactly twice: once where it is interpolated and once in the fixed language
  schedule. It holds the language three times, and four times for Python and Java: the
  language is interpolated twice, and the fixed text names it too. The prompt lists the
  seven sections as numbered items, each at the start of a line, in the order
  Introduction, Topic Preview, Fun Fact, Tips/Notes, Code Snippet, Explanation,
  Sources.
\<close>

theorem user_prompt_contents:
  assumes "0 \<le> weekday now" and "weekday now \<le> 6" and "iso_date (strftime_Ymd now)"
    and "get_current_day_info now = Inr di"
  shows "count_sub (date di) (build_user_prompt di) = 1
       \<and> count_sub (day_name di) (build_user_prompt di) = 2
       \<and> count_sub (language di) (build_user_prompt di) =
           (if language di = ''Python'' \<or> language di = ''Java'' then 4 else 3)
       \<and> (\<exists>s0 s1 s2 s3 s4 s5 s6 s7.
            build_user_prompt di =
              s0 @ (''\<newline>1. Introduction '' @ em_dash) @
              s1 @ (''\<newline>2. Topic Preview '' @ em_dash) @
              s2 @ (''\<newline>3. Fun Fact '' @ em_dash) @
              s3 @ (''\<newline>4. Tips/Notes '' @ em_dash) @
              s4 @ (''\<newline>5. Code Snippet '' @ em_dash) @
              s5 @ (''\<newline>6. Explanation '' @ em_dash) @
              s6 @ (''\<newline>7. Sources '' @ em_dash) @ s7)"
proof -
  note iso = assms(3)
  have counts: "count_sub (date di) (build_user_prompt di) = 1
       \<and> count_sub (day_name di) (build_user_prompt di) = 2
       \<and> count_sub (language di) (build_user_prompt di) =
           (if language di = ''Python'' \<or> language di = ''Java'' then 4 else 3)"
    using resolved_day_info [OF assms(1,2,4)]
  proof (elim disjE)
    assume c: "di = \<lparr> day_name = ''Sunday'', language = ''Wildcard'', date = strftime_Ymd now \<rparr>"
    have "count_sub (strftime_Ymd now)
            (build_user_prompt \<lparr> day_name = ''Sunday'', language = ''Wildcard'', date = strftime_Ymd now \<rparr>) = 1
       \<and> count_sub ''Sunday''
            (build_user_prompt \<lparr> day_name = ''Sunday'', language = ''Wildcard'', date = strftime_Ymd now \<rparr>) = 2
       \<and> count_sub ''Wildcard''
            (build_user_prompt \<lparr> day_name = ''Sunday'', language = ''Wildcard'', date = strftime_Ymd now \<rparr>) = 3"
      by (rule prompt_counts [OF iso _ _ _ _ counts_Sunday]) simp_all
    then show ?thesis using c by simp
  next
    assume c: "di = \<lparr> day_name = ''Monday'', language = ''Python'', date = strftime_Ymd now \<rparr>"
    have "count_sub (strftime_Ymd now)
            (build_user_prompt \<lparr> day_name = ''Monday'', language = ''Python'', date = strftime_Ymd now \<rparr>) = 1
       \<and> count_sub ''Monday''
            (build_user_prompt \<lparr> day_name = ''Monday'', language = ''Python'', date = strftime_Ymd now \<rparr>) = 2
       \<and> count_sub ''Python''
            (build_user_prompt \<lparr> day_name = ''Monday'', language = ''Python'', date = strftime_Ymd now \<rparr>) = 4"
      by (rule prompt_counts [OF iso _ _ _ _ counts_Monday]) simp_all
    then show ?thesis using c by simp
  next
    assume c: "di = \<lparr> day_name = ''Tuesday'', language = ''Java'', date = strftime_Ymd now \<rparr>"
    have "count_sub (strftime_Ymd now)
            (build_user_prompt \<lparr> day_name = ''Tuesday'', language = ''Java'', date = strftime_Ymd now \<rparr>) = 1
       \<and> count_sub ''Tuesday''
            (build_user_prompt \<lparr> day_name = ''Tuesday'', language = ''Java'', date = strftime_Ymd now \<rparr>) = 2
       \<and> count_sub ''Java''
            (build_user_prompt \<lparr> day_name = ''Tuesday'', language = ''Java'', date = strftime_Ymd now \<rparr>) = 4"
      by (rule prompt_counts [OF iso _ _ _ _ counts_Tuesday]) simp_all
    then show ?thesis using c by simp
  next
    assume c: "di = \<lparr> day_name = ''Wednesday'', language = ''JavaScript'', date = strftime_Ymd now \<rparr>"
    have "count_sub (strftime_Ymd now)
            (build_user_prompt \<lparr> day_name = ''Wednesday'', language = ''JavaScript'', date = strftime_Ymd now \<rparr>) = 1
       \<and> count_sub ''Wednesday''
            (build_user_prompt \<lparr> day_name = ''Wednesday'', language = ''JavaScript'', date = strftime_Ymd now \<rparr>) = 2
       \<and> count_sub ''JavaScript''
            (build_user_prompt \<lparr> day_name = ''Wednesday'', language = ''JavaScript'', date = strftime_Ymd now \<rparr>) = 3"
      by (rule prompt_counts [OF iso _ _ _ _ counts_Wednesday]) simp_all
    then show ?thesis using c by simp
  next
    assume c: "di = \<lparr> day_name = ''Thursday'', language = ''Go'', date = strftime_Ymd now \<rparr>"
    have "count_sub (strftime_Ymd now)
            (build_user_prompt \<lparr> day_name = ''Thursday'', language = ''Go'', date = strftime_Ymd now \<rparr>) = 1
       \<and> count_sub ''Thursday''
            (build_user_prompt \<lparr> day_name = ''Thursday'', language = ''Go'', date = strftime_Ymd now \<rparr>) = 2
       \<and> count_sub ''Go''
            (build_user_prompt \<lparr> day_name = ''Thursday'', language = ''Go'', date = strftime_Ymd now \<rparr>) = 3"
      by (rule prompt_counts [OF iso _ _ _ _ counts_Thursday]) simp_all
    then show ?thesis using c by simp
  next
    assume c: "di = \<lparr> day_name = ''Friday'', language = ''Wildcard'', date = strftime_Ymd now \<rparr>"
    have "count_sub (strftime_Ymd now)
            (build_user_prompt \<lparr> day_name = ''Friday'', language = ''Wildcard'', date = strftime_Ymd now \<rparr>) = 1
       \<and> count_sub ''Friday''
            (build_user_prompt \<lparr> day_name = ''Friday'', language = ''Wildcard'', date = strftime_Ymd now \<rparr>) = 2
       \<and> count_sub ''Wildcard''
            (build_user_prompt \<lparr> day_name = ''Friday'', language = ''Wildcard'', date = strftime_Ymd now \<rparr>) = 3"
      by (rule prompt_counts [OF iso _ _ _ _ counts_Friday]) simp_all
    then show ?thesis using c by simp
  next
    assume c: "di = \<lparr> day_name = ''Saturday'', language = ''Wildcard'', date = strftime_Ymd now \<rparr>"
    have "count_sub (strftime_Ymd now)
            (build_user_prompt \<lparr> day_name = ''Saturday'', language = ''Wildcard'', date = strftime_Ymd now \<rparr>) = 1
       \<and> count_sub ''Saturday''
            (build_user_prompt \<lparr> day_name = ''Saturday'', language = ''Wildcard'', date = strftime_Ymd now \<rparr>) = 2
       \<and> count_sub ''Wildcard''
            (build_user_prompt \<lparr> day_name = ''Saturday'', language = ''Wildcard'', date = strftime_Ymd now \<rparr>) = 3"
      by (rule prompt_counts [OF iso _ _ _ _ counts_Saturday]) simp_all
    then show ?thesis using c by simp
  qed
  then show ?thesis using user_prompt_sections [of di] by blast
qed

theorem user_prompt_contents_witness:
  "count_sub ''2024-01-01'' (build_user_prompt example_day_info) = 1
   \<and> count_sub ''Monday'' (build_user_prompt example_day_info) = 2
   \<and> count_sub ''Python'' (build_user_prompt example_day_info) = 4"
proof -
  have w: "0 \<le> weekday example_now" "weekday example_now \<le> 6"
    by (simp_all add: example_now_def)
  have i: "iso_date (strftime_Ymd example_now)"
    by (simp add: example_now_def iso_date_def digit_class_def)
  show ?thesis
    using user_prompt_contents [OF w i example_resolved] by (simp add: example_day_info_def)
qed

text \<open>
  C6 as stated fails on a Monday: the prompt holds the language "Python" four times and
  the day name "Monday" twice, not once each.
\<close>

theorem user_prompt_repeats_counterexample:
  "get_current_day_info example_now = Inr example_day_info
   \<and> language example_day_info = ''Python''
   \<and> count_sub ''Python'' (build_user_prompt example_day_info) = 4
   \<and> day_name example_day_info = ''Monday''
   \<and> count_sub ''Monday'' (build_user_prompt example_day_info) = 2"
proof -
  have p: "build_user_prompt example_day_info =
      prompt_before_date @ ''2024-01-01'' @ prompt_before_day @ ''Monday'' @
      prompt_before_language @ ''Python'' @ prompt_rules @ ''Python'' @ prompt_closing"
    by (simp add: build_user_prompt_def example_day_info_def Let_def)
  have "count_sub ''Python'' (prompt_before_date @ ''2024-01-01'' @ prompt_before_day @ ''Monday'' @
      prompt_before_language @ ''Python'' @ prompt_rules @ ''Python'' @ prompt_closing) = 4"
    unfolding count_sub_eval prompt_text by (simp only: text_eval)
  moreover have "count_sub ''Monday'' (prompt_before_date @ ''2024-01-01'' @ prompt_before_day @ ''Monday'' @
      prompt_before_language @ ''Python'' @ prompt_rules @ ''Python'' @ prompt_closing) = 2"
    unfolding count_sub_eval prompt_text by (simp only: text_eval)
  ultimately show ?thesis
    using example_resolved p by (simp add: example_day_info_def)
qed

end
